theory Spec2Isabelle
  imports Complex_Main
begin

section \<open>radar2geo.py: values, errors and collaborators\<close>

text \<open>
  The script \<^verbatim>\<open>src/pysar/radar2geo.py\<close> is glue code around collaborators that live in
  other modules (\<^verbatim>\<open>pysar.utils\<close>, \<^verbatim>\<open>pysar.objects.resample\<close>, \<^verbatim>\<open>argparse\<close>, \<^verbatim>\<open>numpy\<close>).
  Every function of the script is embedded below; the collaborators and the builtin
  operations on Python floats are parameters of the embedding, so that each theorem
  holds for whatever these compute.
\<close>

datatype error =
    SystemExit string
  | ValueError
  | KeyError string
  | IndexError
  | TypeError
  | AttributeError
  | ZeroDivisionError
  | OverflowError

text \<open>
  Values of a template dictionary after \<^verbatim>\<open>check_template_auto_value\<close>: the strings read
  from the file, and the \<^verbatim>\<open>True\<close>/\<^verbatim>\<open>False\<close>/\<^verbatim>\<open>None\<close> that \<^verbatim>\<open>yes\<close>/\<^verbatim>\<open>no\<close>/\<^verbatim>\<open>none\<close> stand for
  (the help text of the script: "auto for None", "[yes / no]").
\<close>

datatype tval = TStr string | TBool bool | TNone

text \<open>Values of a metadata dictionary: integers, floats and strings.\<close>

datatype 'f pyval = PInt int | PFloat 'f | PStr string

type_synonym 'f attrs = "string \<rightharpoonup> 'f pyval"

type_synonym template = "string \<rightharpoonup> tval"

text \<open>
  The builtin conversions and float operations the script uses, over an arbitrary
  carrier \<open>'f\<close> of floats: \<^verbatim>\<open>float(s)\<close>, \<^verbatim>\<open>float(n)\<close>, \<^verbatim>\<open>int(s)\<close>, \<^verbatim>\<open>int(x)\<close>, \<^verbatim>\<open>x - y\<close>,
  \<^verbatim>\<open>x / y\<close>, \<^verbatim>\<open>np.rint\<close>, \<^verbatim>\<open>np.isnan\<close>, \<^verbatim>\<open>np.nan\<close> and \<^verbatim>\<open>str(x)\<close>.
\<close>

record 'f float_ops =
  float_of_str :: "string \<Rightarrow> error + 'f"
  float_of_int :: "int \<Rightarrow> 'f"
  int_of_str :: "string \<Rightarrow> error + int"
  int_of_float :: "'f \<Rightarrow> error + int"
  fsub :: "'f \<Rightarrow> 'f \<Rightarrow> 'f"
  fdiv :: "'f \<Rightarrow> 'f \<Rightarrow> error + 'f"
  rint :: "'f \<Rightarrow> 'f"
  isnan :: "'f \<Rightarrow> bool"
  nan :: "'f"
  str_of_float :: "'f \<Rightarrow> string"

text \<open>
  The options record: the \<^verbatim>\<open>argparse.Namespace\<close> with the attributes the parser
  defines (in the order of \<^verbatim>\<open>create_parser\<close>) and those the script adds later.
  An attribute that is \<^verbatim>\<open>None\<close> or not yet set is \<open>None\<close>; the attribute
  \<^verbatim>\<open>file\<close> is the field \<open>files\<close>.
\<close>

record ('f, 'g) inps =
  files :: "string list"
  lookupFile :: "string option"
  templateFile :: "string option"
  SNWE :: "'f list option"
  latStep :: "'f option"
  lonStep :: "'f option"
  interpMethod :: tval
  fillValue :: 'f
  outfile :: "string list option"
  laloStep :: "'f list option"
  outShape :: "nat list option"
  src_def :: "'g option"
  dest_def :: "'g option"

text \<open>The keyword arguments of the \<^verbatim>\<open>resample(...)\<close> constructor call in \<^verbatim>\<open>main\<close>.\<close>

record 'f resample_args =
  arg_lookupFile :: "string option"
  arg_dataFile :: string
  arg_SNWE :: "'f list option"
  arg_laloStep :: "'f option"

text \<open>
  The collaborators: \<^verbatim>\<open>parser.parse_args\<close> (which exits by itself on a usage error),
  \<^verbatim>\<open>ut.get_file_list\<close>, \<^verbatim>\<open>ut.get_lookup_file\<close>, \<^verbatim>\<open>readfile.read_template\<close>,
  \<^verbatim>\<open>ut.check_template_auto_value\<close>, \<^verbatim>\<open>ut.radar2glob\<close> (its first two results),
  \<^verbatim>\<open>readfile.read\<close>, the \<^verbatim>\<open>shape\<close> of an array, \<^verbatim>\<open>np.moveaxis\<close>, the \<^verbatim>\<open>resample\<close> class
  with its two methods, and the elapsed time as \<^verbatim>\<open>'{:.2f}'\<close> formats it.
  Arrays \<open>'d\<close>, geometry definitions \<open>'g\<close> and the resample object \<open>'r\<close> are opaque.
\<close>

record ('f, 'd, 'g, 'r) env =
  parse_args :: "string list option \<Rightarrow> error + ('f, 'g) inps"
  get_file_list :: "string list \<Rightarrow> string list"
  get_lookup_file :: "string option \<Rightarrow> string option"
  read_template :: "string \<Rightarrow> template"
  check_template_auto_value :: "template \<Rightarrow> template"
  radar2glob :: "int \<Rightarrow> int \<Rightarrow> string option \<Rightarrow> 'f attrs \<Rightarrow> 'f \<times> 'f"
  readfile_read :: "string \<Rightarrow> 'd \<times> 'f attrs"
  shape :: "'d \<Rightarrow> nat list"
  moveaxis :: "'d \<Rightarrow> int \<Rightarrow> int \<Rightarrow> 'd"
  resample_init :: "'f resample_args \<Rightarrow> 'r"
  get_geometry_definition :: "'r \<Rightarrow> 'g \<times> 'g \<times> 'f list"
  resample :: "'r \<Rightarrow> 'd \<Rightarrow> 'g \<Rightarrow> 'g \<Rightarrow> tval \<Rightarrow> 'f \<Rightarrow> 'd"
  time_used :: string

subsection \<open>Truth values of Python objects\<close>

definition truthy_str :: "string option \<Rightarrow> bool" where
  "truthy_str v = (case v of None \<Rightarrow> False | Some s \<Rightarrow> s \<noteq> [])"

definition truthy_list :: "'a list option \<Rightarrow> bool" where
  "truthy_list v = (case v of None \<Rightarrow> False | Some xs \<Rightarrow> xs \<noteq> [])"

fun truthy_tval :: "tval \<Rightarrow> bool" where
  "truthy_tval (TStr s) = (s \<noteq> [])"
| "truthy_tval (TBool b) = b"
| "truthy_tval TNone = False"

section \<open>cmd_line_parse\<close>

text \<open>
  \<^verbatim>\<open>inps.laloStep = [inps.latStep, inps.lonStep]\<close>, replaced by \<^verbatim>\<open>None\<close> when
  \<^verbatim>\<open>None in inps.laloStep\<close>.
\<close>

definition make_laloStep :: "'f option \<Rightarrow> 'f option \<Rightarrow> 'f list option" where
  "make_laloStep la lo =
     (case la of None \<Rightarrow> None
      | Some a \<Rightarrow> (case lo of None \<Rightarrow> None | Some b \<Rightarrow> Some [a, b]))"

text \<open>
  \<^verbatim>\<open>sys.exit(msg)\<close> raises \<^verbatim>\<open>SystemExit(msg)\<close>; no function of the script catches it, so
  the interpreter prints \<open>msg\<close> on standard error and ends the process with status 1.
  \<^verbatim>\<open>tuple(inps.SNWE)\<close> keeps the elements: lists and tuples are both lists here.
\<close>

definition cmd_line_parse ::
  "('f, 'd, 'g, 'r) env \<Rightarrow> string list option \<Rightarrow> error + ('f, 'g) inps" where
  "cmd_line_parse e iargs =
     (case parse_args e iargs of
        Inl err \<Rightarrow> Inl err
      | Inr inps0 \<Rightarrow>
          let inps1 = inps0\<lparr>files := get_file_list e (files inps0)\<rparr> in
          if files inps1 = [] then Inl (SystemExit ''ERROR: no input file found!'')
          else
            let inps2 = inps1\<lparr>lookupFile := get_lookup_file e (lookupFile inps1)\<rparr> in
            if \<not> truthy_str (lookupFile inps2)
            then Inl (SystemExit ''ERROR: No lookup table found! Can not geocode without it.'')
            else
              let inps3 = (if truthy_list (SNWE inps2)
                           then inps2\<lparr>SNWE := SNWE inps2\<rparr> else inps2);
                  inps4 = inps3\<lparr>laloStep := make_laloStep (latStep inps3) (lonStep inps3)\<rparr>
              in Inr inps4)"

section \<open>Strings\<close>

text \<open>\<^verbatim>\<open>s.split(c)\<close> for a one-character separator: never an empty list.\<close>

fun str_split :: "char \<Rightarrow> string \<Rightarrow> string list" where
  "str_split c [] = [[]]"
| "str_split c (x # xs) =
     (if x = c then [] # str_split c xs
      else (case str_split c xs of [] \<Rightarrow> [[x]] | y # ys \<Rightarrow> (x # y) # ys))"

text \<open>
  \<^verbatim>\<open>s.lower()\<close> on the ASCII letters. Strings are byte strings here; no character
  outside ASCII has a lower case containing \<^verbatim>\<open>n\<close> or \<^verbatim>\<open>a\<close>, which is all the script
  looks for in the result.
\<close>

definition lower_char :: "char \<Rightarrow> char" where
  "lower_char c =
     (case map_of (zip ''ABCDEFGHIJKLMNOPQRSTUVWXYZ'' ''abcdefghijklmnopqrstuvwxyz'') c of
        None \<Rightarrow> c
      | Some l \<Rightarrow> l)"

definition lower :: "string \<Rightarrow> string" where
  "lower s = map lower_char s"

fun starts_with :: "string \<Rightarrow> string \<Rightarrow> bool" where
  "starts_with s [] = True"
| "starts_with [] (p # ps) = False"
| "starts_with (x # xs) (p # ps) = (x = p \<and> starts_with xs ps)"

text \<open>\<^verbatim>\<open>sub in s\<close> on strings.\<close>

fun str_contains :: "string \<Rightarrow> string \<Rightarrow> bool" where
  "str_contains [] sub = (sub = [])"
| "str_contains (x # xs) sub = (starts_with (x # xs) sub \<or> str_contains xs sub)"

text \<open>\<^verbatim>\<open>str(n)\<close> for an integer.\<close>

definition digit_char :: "nat \<Rightarrow> char" where
  "digit_char d = ''0123456789'' ! d"

fun str_of_nat :: "nat \<Rightarrow> string" where
  "str_of_nat n = (if n < 10 then [digit_char n] else str_of_nat (n div 10) @ [digit_char (n mod 10)])"

definition str_of_int :: "int \<Rightarrow> string" where
  "str_of_int i = (if i < 0 then CHR ''-'' # str_of_nat (nat (- i)) else str_of_nat (nat i))"

subsection \<open>posixpath\<close>

text \<open>
  \<^verbatim>\<open>os.path.basename\<close>, \<^verbatim>\<open>os.path.dirname\<close> and the two-argument \<^verbatim>\<open>os.path.join\<close> of
  \<^verbatim>\<open>posixpath\<close>: \<open>p[i:]\<close> and \<open>p[:i]\<close> for \<open>i = p.rfind('/') + 1\<close>.
\<close>

definition is_slash :: "char \<Rightarrow> bool" where
  "is_slash c = (c = CHR ''/'')"

definition basename :: "string \<Rightarrow> string" where
  "basename p = rev (takeWhile (\<lambda>c. \<not> is_slash c) (rev p))"

definition dirname :: "string \<Rightarrow> string" where
  "dirname p =
     (let head = rev (dropWhile (\<lambda>c. \<not> is_slash c) (rev p))
      in if head \<noteq> [] \<and> \<not> list_all is_slash head
         then rev (dropWhile is_slash (rev head)) else head)"

definition path_join :: "string \<Rightarrow> string \<Rightarrow> string" where
  "path_join a b =
     (if starts_with b ''/'' then b
      else if a = [] \<or> is_slash (last a) then a @ b
      else a @ ''/'' @ b)"

section \<open>The store, the output and the control flow\<close>

text \<open>
  Dictionaries are objects: a variable holds a reference, and two variables may hold
  the same one. The store maps every reference to the contents of its dictionary;
  \<open>nxt\<close> is the first reference not yet allocated. What the process prints, the
  warnings it issues and the calls it makes to the collaborators that read, resample
  and write are recorded in order in \<open>events\<close>.
\<close>

datatype ('f, 'd) event =
    Print string
  | Warn string
  | CallResampleInit "'f resample_args"
  | CallGetGeometry
  | CallRead string
  | CallResample 'd tval 'f
  | CallWrite 'd "'f attrs" string string

record ('f, 'd) world =
  heap :: "nat \<Rightarrow> 'f attrs"
  nxt :: nat
  events :: "('f, 'd) event list"

text \<open>
  A statement runs in a world and either raises or yields a value, in the world it
  has reached. \<open>bind\<close> is sequencing: an exception of the first statement skips the
  second one.
\<close>

type_synonym ('a, 'f, 'd) prog = "('f, 'd) world \<Rightarrow> (error + 'a) \<times> ('f, 'd) world"

definition ret :: "'a \<Rightarrow> ('a, 'f, 'd) prog" where
  "ret x = (\<lambda>w. (Inr x, w))"

definition lift :: "error + 'a \<Rightarrow> ('a, 'f, 'd) prog" where
  "lift r = (\<lambda>w. (r, w))"

definition bind :: "('a, 'f, 'd) prog \<Rightarrow> ('a \<Rightarrow> ('b, 'f, 'd) prog) \<Rightarrow> ('b, 'f, 'd) prog" where
  "bind m f = (\<lambda>w. case m w of (Inl err, w') \<Rightarrow> (Inl err, w') | (Inr x, w') \<Rightarrow> f x w')"

text \<open>\<^verbatim>\<open>try: m  except: pass\<close>: a bare \<^verbatim>\<open>except\<close> swallows every exception.\<close>

definition try_pass :: "('a, 'f, 'd) prog \<Rightarrow> (unit, 'f, 'd) prog" where
  "try_pass m = (\<lambda>w. case m w of (r, w') \<Rightarrow> (Inr (), w'))"

definition emit :: "('f, 'd) event \<Rightarrow> (unit, 'f, 'd) prog" where
  "emit ev = (\<lambda>w. (Inr (), w\<lparr>events := events w @ [ev]\<rparr>))"

text \<open>A new dictionary object with the given contents; \<^verbatim>\<open>dict(a)\<close> copies those of \<open>a\<close>.\<close>

definition dict_new :: "'f attrs \<Rightarrow> (nat, 'f, 'd) prog" where
  "dict_new d = (\<lambda>w. (Inr (nxt w), w\<lparr>heap := (heap w)(nxt w := d), nxt := Suc (nxt w)\<rparr>))"

definition dict_copy :: "nat \<Rightarrow> (nat, 'f, 'd) prog" where
  "dict_copy a = (\<lambda>w. dict_new (heap w a) w)"

definition dict_read :: "nat \<Rightarrow> ('f attrs, 'f, 'd) prog" where
  "dict_read a = (\<lambda>w. (Inr (heap w a), w))"

text \<open>\<^verbatim>\<open>a[k] = v\<close>, \<^verbatim>\<open>a[k]\<close>, \<^verbatim>\<open>k in a.keys()\<close> and \<^verbatim>\<open>a.pop(k)\<close>.\<close>

definition setitem :: "nat \<Rightarrow> string \<Rightarrow> 'f pyval \<Rightarrow> (unit, 'f, 'd) prog" where
  "setitem a k v = (\<lambda>w. (Inr (), w\<lparr>heap := (heap w)(a := (heap w a)(k \<mapsto> v))\<rparr>))"

definition getitem :: "nat \<Rightarrow> string \<Rightarrow> ('f pyval, 'f, 'd) prog" where
  "getitem a k = (\<lambda>w. case heap w a k of None \<Rightarrow> (Inl (KeyError k), w) | Some v \<Rightarrow> (Inr v, w))"

definition has_key :: "nat \<Rightarrow> string \<Rightarrow> (bool, 'f, 'd) prog" where
  "has_key a k = (\<lambda>w. (Inr (heap w a k \<noteq> None), w))"

definition pop :: "nat \<Rightarrow> string \<Rightarrow> ('f pyval, 'f, 'd) prog" where
  "pop a k =
     (\<lambda>w. case heap w a k of
        None \<Rightarrow> (Inl (KeyError k), w)
      | Some v \<Rightarrow> (Inr v, w\<lparr>heap := (heap w)(a := (heap w a)(k := None))\<rparr>))"

section \<open>read_template2inps\<close>

text \<open>\<^verbatim>\<open>float(value)\<close>, \<^verbatim>\<open>value.split(',')\<close> and \<^verbatim>\<open>value.lower()\<close> on a template value.\<close>

fun float_of_tval :: "'f float_ops \<Rightarrow> tval \<Rightarrow> error + 'f" where
  "float_of_tval ops (TStr s) = float_of_str ops s"
| "float_of_tval ops (TBool b) = Inr (float_of_int ops (if b then 1 else 0))"
| "float_of_tval ops TNone = Inl TypeError"

fun split_tval :: "tval \<Rightarrow> error + string list" where
  "split_tval (TStr s) = Inr (str_split CHR '','' s)"
| "split_tval v = Inl AttributeError"

fun lower_tval :: "tval \<Rightarrow> error + string" where
  "lower_tval (TStr s) = Inr (lower s)"
| "lower_tval v = Inl AttributeError"

text \<open>A list comprehension whose element expression may raise: the first exception wins.\<close>

fun map_err :: "('a \<Rightarrow> error + 'b) \<Rightarrow> 'a list \<Rightarrow> error + 'b list" where
  "map_err f [] = Inr []"
| "map_err f (x # xs) =
     (case f x of
        Inl err \<Rightarrow> Inl err
      | Inr y \<Rightarrow> (case map_err f xs of Inl err \<Rightarrow> Inl err | Inr ys \<Rightarrow> Inr (y # ys)))"

text \<open>
  The keys of \<^verbatim>\<open>vars(inps)\<close> when \<^verbatim>\<open>read_template2inps\<close> runs, in the order the
  attributes were first set: the parser's destinations, then \<^verbatim>\<open>laloStep\<close>.
\<close>

definition inps_keys :: "string list" where
  "inps_keys = [''file'', ''lookupFile'', ''templateFile'', ''SNWE'', ''latStep'', ''lonStep'',
                ''interpMethod'', ''fillValue'', ''outfile'', ''laloStep'']"

definition prefix :: string where
  "prefix = ''pysar.geocode.''"

text \<open>
  The \<^verbatim>\<open>if key == ... elif ...\<close> chain of the loop body, for a truthy \<open>value\<close>: a key
  that no branch names is left alone.
\<close>

definition assign_option ::
  "'f float_ops \<Rightarrow> string \<Rightarrow> tval \<Rightarrow> ('f, 'g) inps \<Rightarrow> error + ('f, 'g) inps" where
  "assign_option ops key val i =
     (if key = ''SNWE'' then
        (case split_tval val of
           Inl err \<Rightarrow> Inl err
         | Inr parts \<Rightarrow>
             (case map_err (float_of_str ops) parts of
                Inl err \<Rightarrow> Inl err
              | Inr xs \<Rightarrow> Inr (i\<lparr>SNWE := Some xs\<rparr>)))
      else if key \<in> set [''latStep'', ''lonStep''] then
        (case float_of_tval ops val of
           Inl err \<Rightarrow> Inl err
         | Inr x \<Rightarrow> Inr (if key = ''latStep'' then i\<lparr>latStep := Some x\<rparr>
                         else i\<lparr>lonStep := Some x\<rparr>))
      else if key \<in> set [''interpMethod''] then Inr (i\<lparr>interpMethod := val\<rparr>)
      else if key = ''fillValue'' then
        (case lower_tval val of
           Inl err \<Rightarrow> Inl err
         | Inr low \<Rightarrow>
             if str_contains low ''nan'' then Inr (i\<lparr>fillValue := nan ops\<rparr>)
             else (case float_of_tval ops val of
                     Inl err \<Rightarrow> Inl err
                   | Inr x \<Rightarrow> Inr (i\<lparr>fillValue := x\<rparr>)))
      else Inr i)"

text \<open>\<^verbatim>\<open>for key in key_list: value = template[prefix + key]; if value: ...\<close>\<close>

fun template_loop ::
  "'f float_ops \<Rightarrow> template \<Rightarrow> string list \<Rightarrow> ('f, 'g) inps \<Rightarrow> error + ('f, 'g) inps" where
  "template_loop ops t [] i = Inr i"
| "template_loop ops t (key # keys) i =
     (case t (prefix @ key) of
        None \<Rightarrow> Inl (KeyError (prefix @ key))
      | Some val \<Rightarrow>
          if truthy_tval val then
            (case assign_option ops key val i of
               Inl err \<Rightarrow> Inl err
             | Inr i' \<Rightarrow> template_loop ops t keys i')
          else template_loop ops t keys i)"

definition read_template2inps ::
  "'f float_ops \<Rightarrow> ('f, 'd, 'g, 'r) env \<Rightarrow> string \<Rightarrow> ('f, 'g) inps option
     \<Rightarrow> (('f, 'g) inps, 'f, 'd) prog" where
  "read_template2inps ops e template_file inps_arg =
     bind (emit (Print (''read input option from template file: '' @ template_file))) (\<lambda>_.
     bind (case inps_arg of
             None \<Rightarrow> lift (cmd_line_parse e None)
           | Some i \<Rightarrow> ret i) (\<lambda>i.
     let t = check_template_auto_value e (read_template e template_file);
         key_list = filter (\<lambda>k. t (prefix @ k) \<noteq> None) inps_keys
     in
     bind (lift (template_loop ops t key_list i)) (\<lambda>i.
     ret (i\<lparr>laloStep := make_laloStep (latStep i) (lonStep i)\<rparr>))))"

section \<open>update_attribute\<close>

text \<open>
  \<^verbatim>\<open>length, width = inps.outShape[-2:]\<close>: the slice holds the last two dimensions, or
  fewer when the shape is shorter, and then the unpacking raises.
\<close>

definition last_two :: "nat list option \<Rightarrow> error + (nat \<times> nat)" where
  "last_two sh =
     (case sh of
        None \<Rightarrow> Inl AttributeError
      | Some dims \<Rightarrow>
          (case rev dims of
             b # a # _ \<Rightarrow> Inr (a, b)
           | _ \<Rightarrow> Inl ValueError))"

text \<open>\<^verbatim>\<open>inps.SNWE[k]\<close> for \<open>k\<close> from 0 to 3.\<close>

definition snwe_item :: "'f list option \<Rightarrow> nat \<Rightarrow> error + 'f" where
  "snwe_item b k =
     (case b of
        None \<Rightarrow> Inl TypeError
      | Some xs \<Rightarrow> if k < length xs then Inr (xs ! k) else Inl IndexError)"

text \<open>\<^verbatim>\<open>int(v)\<close> and \<^verbatim>\<open>float(v)\<close> on a metadata value.\<close>

fun py_int :: "'f float_ops \<Rightarrow> 'f pyval \<Rightarrow> error + int" where
  "py_int ops (PInt n) = Inr n"
| "py_int ops (PFloat x) = int_of_float ops x"
| "py_int ops (PStr s) = int_of_str ops s"

fun py_float :: "'f float_ops \<Rightarrow> 'f pyval \<Rightarrow> error + 'f" where
  "py_float ops (PInt n) = Inr (float_of_int ops n)"
| "py_float ops (PFloat x) = Inr x"
| "py_float ops (PStr s) = float_of_str ops s"

text \<open>
  \<^verbatim>\<open>int(np.rint((ref - float(atr[first])) / float(atr[step])))\<close>, operands evaluated
  from left to right.
\<close>

definition ref_index ::
  "'f float_ops \<Rightarrow> nat \<Rightarrow> 'f \<Rightarrow> string \<Rightarrow> string \<Rightarrow> (int, 'f, 'd) prog" where
  "ref_index ops atr ref first step =
     bind (getitem atr first) (\<lambda>v0.
     bind (lift (py_float ops v0)) (\<lambda>x0.
     bind (getitem atr step) (\<lambda>v1.
     bind (lift (py_float ops v1)) (\<lambda>x1.
     bind (lift (fdiv ops (fsub ops ref x0) x1)) (\<lambda>q.
     lift (int_of_float ops (rint ops q)))))))"

definition warn_msg :: string where
  "warn_msg = ''original reference pixel is out of .trans file's coverage. Continue.''"

text \<open>
  The block \<^verbatim>\<open>if 'REF_Y' in atr.keys(): ...\<close> of \<^verbatim>\<open>update_attribute\<close>, on the copy \<open>atr\<close>;
  \<^verbatim>\<open>ut.radar2glob\<close> is handed the caller's dictionary \<open>atr_in\<close>.
\<close>

definition update_reference ::
  "'f float_ops \<Rightarrow> ('f, 'd, 'g, 'r) env \<Rightarrow> nat \<Rightarrow> nat \<Rightarrow> ('f, 'g) inps \<Rightarrow> bool
     \<Rightarrow> (unit, 'f, 'd) prog" where
  "update_reference ops e atr_in atr i print_msg =
     bind (has_key atr ''REF_Y'') (\<lambda>has_ref.
     if has_ref then
       bind (getitem atr ''REF_Y'') (\<lambda>vy.
       bind (lift (py_int ops vy)) (\<lambda>y.
       bind (getitem atr ''REF_X'') (\<lambda>vx.
       bind (lift (py_int ops vx)) (\<lambda>x.
       bind (dict_read atr_in) (\<lambda>d_in.
       case radar2glob e y x (lookupFile i) d_in of (ref_lat, ref_lon) \<Rightarrow>
       if \<not> isnan ops ref_lat \<and> \<not> isnan ops ref_lon then
         bind (ref_index ops atr ref_lat ''Y_FIRST'' ''Y_STEP'') (\<lambda>ref_y.
         bind (ref_index ops atr ref_lon ''X_FIRST'' ''X_STEP'') (\<lambda>ref_x.
         bind (setitem atr ''REF_LAT'' (PStr (str_of_float ops ref_lat))) (\<lambda>_.
         bind (setitem atr ''REF_LON'' (PStr (str_of_float ops ref_lon))) (\<lambda>_.
         bind (setitem atr ''REF_Y'' (PStr (str_of_int ref_y))) (\<lambda>_.
         bind (setitem atr ''REF_X'' (PStr (str_of_int ref_x))) (\<lambda>_.
         if print_msg then emit (Print ''update REF_LAT/LON/Y/X'') else ret ()))))))
       else
         bind (emit (Warn warn_msg)) (\<lambda>_.
         bind (try_pass (bind (pop atr ''REF_Y'') (\<lambda>_. pop atr ''REF_X''))) (\<lambda>_.
         try_pass (bind (pop atr ''REF_LAT'') (\<lambda>_. pop atr ''REF_LON'')))))))))
     else ret ())"

definition update_attribute ::
  "'f float_ops \<Rightarrow> ('f, 'd, 'g, 'r) env \<Rightarrow> nat \<Rightarrow> ('f, 'g) inps \<Rightarrow> bool
     \<Rightarrow> (nat, 'f, 'd) prog" where
  "update_attribute ops e atr_in i print_msg =
     bind (dict_copy atr_in) (\<lambda>atr.
     bind (lift (last_two (outShape i))) (\<lambda>(len, wid).
     bind (setitem atr ''LENGTH'' (PInt (int len))) (\<lambda>_.
     bind (setitem atr ''WIDTH'' (PInt (int wid))) (\<lambda>_.
     bind (lift (snwe_item (SNWE i) 1)) (\<lambda>n.
     bind (setitem atr ''Y_FIRST'' (PFloat n)) (\<lambda>_.
     bind (lift (snwe_item (SNWE i) 2)) (\<lambda>w.
     bind (setitem atr ''X_FIRST'' (PFloat w)) (\<lambda>_.
     bind (lift (snwe_item (SNWE i) 0)) (\<lambda>s.
     bind (lift (snwe_item (SNWE i) 1)) (\<lambda>n'.
     bind (lift (fdiv ops (fsub ops s n') (float_of_int ops (int len)))) (\<lambda>ystep.
     bind (setitem atr ''Y_STEP'' (PFloat ystep)) (\<lambda>_.
     bind (lift (snwe_item (SNWE i) 3)) (\<lambda>ea.
     bind (lift (snwe_item (SNWE i) 2)) (\<lambda>w'.
     bind (lift (fdiv ops (fsub ops ea w') (float_of_int ops (int wid)))) (\<lambda>xstep.
     bind (setitem atr ''X_STEP'' (PFloat xstep)) (\<lambda>_.
     bind (setitem atr ''Y_UNIT'' (PStr ''degrees'')) (\<lambda>_.
     bind (setitem atr ''X_UNIT'' (PStr ''degrees'')) (\<lambda>_.
     bind (update_reference ops e atr_in atr i print_msg) (\<lambda>_.
     ret atr)))))))))))))))))))"

section \<open>geocode_file and main\<close>

text \<open>Reading an attribute that was never set raises \<^verbatim>\<open>AttributeError\<close>.\<close>

definition attribute :: "'a option \<Rightarrow> error + 'a" where
  "attribute v = (case v of None \<Rightarrow> Inl AttributeError | Some x \<Rightarrow> Inr x)"

text \<open>
  \<^verbatim>\<open>geocode_file(infile, inps, res_obj, outfile=None)\<close>. The function assigns
  \<^verbatim>\<open>inps.outShape\<close> on the caller's object, so the options record is returned along
  with the name of the output file.
\<close>

definition geocode_file ::
  "'f float_ops \<Rightarrow> ('f, 'd, 'g, 'r) env \<Rightarrow> string \<Rightarrow> ('f, 'g) inps \<Rightarrow> 'r \<Rightarrow> string option
     \<Rightarrow> (string \<times> ('f, 'g) inps, 'f, 'd) prog" where
  "geocode_file ops e infile i res_obj outfile_arg =
     bind (emit (Print (replicate 50 CHR ''-''))) (\<lambda>_.
     bind (emit (Print (''geocode file: '' @ infile))) (\<lambda>_.
     bind (emit (CallRead infile)) (\<lambda>_.
     case readfile_read e infile of (data0, d) \<Rightarrow>
     bind (dict_new d) (\<lambda>atr.
     let data = (if length (shape e data0) = 3 then moveaxis e data0 0 (- 1) else data0) in
     bind (lift (attribute (src_def i))) (\<lambda>sd.
     bind (lift (attribute (dest_def i))) (\<lambda>dd.
     bind (emit (CallResample data (interpMethod i) (fillValue i))) (\<lambda>_.
     let geo0 = resample e res_obj data sd dd (interpMethod i) (fillValue i);
         geo_data = (if length (shape e geo0) = 3 then moveaxis e geo0 (- 1) 0 else geo0);
         i' = i\<lparr>outShape := Some (shape e geo_data)\<rparr>
     in
     bind (update_attribute ops e atr i' True) (\<lambda>atr'.
     let outfile = (if \<not> truthy_str outfile_arg
                    then path_join (dirname infile) (''geo_'' @ basename infile)
                    else the outfile_arg)
     in
     bind (dict_read atr') (\<lambda>d'.
     bind (emit (CallWrite geo_data d' outfile infile)) (\<lambda>_.
     ret (outfile, i')))))))))))"

text \<open>\<^verbatim>\<open>for infile in inps.file: geocode_file(infile, inps, res_obj)\<close>\<close>

fun geocode_loop ::
  "'f float_ops \<Rightarrow> ('f, 'd, 'g, 'r) env \<Rightarrow> 'r \<Rightarrow> string list \<Rightarrow> ('f, 'g) inps
     \<Rightarrow> (('f, 'g) inps, 'f, 'd) prog" where
  "geocode_loop ops e res_obj [] i = ret i"
| "geocode_loop ops e res_obj (infile # rest) i =
     bind (geocode_file ops e infile i res_obj None) (\<lambda>(out, i').
     geocode_loop ops e res_obj rest i')"

text \<open>\<^verbatim>\<open>inps.file[0]\<close>\<close>

definition first_item :: "'a list \<Rightarrow> error + 'a" where
  "first_item xs = (case xs of [] \<Rightarrow> Inl IndexError | x # _ \<Rightarrow> Inr x)"

definition done_msg :: "('f, 'd, 'g, 'r) env \<Rightarrow> string" where
  "done_msg e = ''Done.'' @ [CHR 0x0A] @ ''time used: '' @ time_used e @ '' secs''"

definition main ::
  "'f float_ops \<Rightarrow> ('f, 'd, 'g, 'r) env \<Rightarrow> string list option \<Rightarrow> (unit, 'f, 'd) prog" where
  "main ops e iargs =
     bind (lift (cmd_line_parse e iargs)) (\<lambda>i0.
     bind (if truthy_str (templateFile i0)
           then read_template2inps ops e (the (templateFile i0)) (Some i0)
           else ret i0) (\<lambda>i1.
     bind (lift (first_item (files i1))) (\<lambda>f0.
     let args = \<lparr>arg_lookupFile = lookupFile i1, arg_dataFile = f0,
                 arg_SNWE = SNWE i1, arg_laloStep = latStep i1\<rparr>
     in
     bind (emit (CallResampleInit args)) (\<lambda>_.
     let res_obj = resample_init e args in
     bind (emit CallGetGeometry) (\<lambda>_.
     case get_geometry_definition e res_obj of (sd, dd, box) \<Rightarrow>
     let i2 = i1\<lparr>src_def := Some sd, dest_def := Some dd, SNWE := Some box\<rparr> in
     bind (geocode_loop ops e res_obj (files i2) i2) (\<lambda>_.
     emit (Print (done_msg e))))))))"

section \<open>A concrete instance\<close>

text \<open>
  An instance of the parameters, on which the definitions above can be run: floats are
  exact rationals extended by NaN (\<open>None\<close>), which agree with Python's floats on the
  small dyadic values of the examples. Division by zero raises, as it does on Python
  floats. \<open>x_float_of_str\<close> and \<open>x_int_of_str\<close> accept plain signed decimal literals
  (and \<^verbatim>\<open>nan\<close>), which \<^verbatim>\<open>float\<close> and \<^verbatim>\<open>int\<close> accept too, and raise on everything else.
\<close>

type_synonym xfloat = "rat option"

definition digit_val :: "char \<Rightarrow> nat option" where
  "digit_val c = map_of (zip ''0123456789'' [0, 1, 2, 3, 4, 5, 6, 7, 8, 9]) c"

definition is_digit :: "char \<Rightarrow> bool" where
  "is_digit c = (digit_val c \<noteq> None)"

definition nat_of_digits :: "string \<Rightarrow> nat" where
  "nat_of_digits ds = foldl (\<lambda>a c. 10 * a + (case digit_val c of None \<Rightarrow> 0 | Some d \<Rightarrow> d)) 0 ds"

definition x_unsigned :: "string \<Rightarrow> rat option" where
  "x_unsigned s =
     (let ip = takeWhile is_digit s; rest = dropWhile is_digit s in
      case rest of
        [] \<Rightarrow> if ip = [] then None else Some (of_nat (nat_of_digits ip))
      | c # fp \<Rightarrow>
          if c = CHR ''.'' \<and> list_all is_digit fp \<and> (ip \<noteq> [] \<or> fp \<noteq> [])
          then Some (of_nat (nat_of_digits ip) + of_nat (nat_of_digits fp) / 10 ^ length fp)
          else None)"

definition x_float_of_str :: "string \<Rightarrow> error + xfloat" where
  "x_float_of_str s =
     (if lower s = ''nan'' then Inr None
      else case s of
        [] \<Rightarrow> Inl ValueError
      | c # r \<Rightarrow>
          if c = CHR ''-''
          then (case x_unsigned r of None \<Rightarrow> Inl ValueError | Some q \<Rightarrow> Inr (Some (- q)))
          else (case x_unsigned s of None \<Rightarrow> Inl ValueError | Some q \<Rightarrow> Inr (Some q)))"

definition x_int_of_str :: "string \<Rightarrow> error + int" where
  "x_int_of_str s =
     (case s of
        [] \<Rightarrow> Inl ValueError
      | c # r \<Rightarrow>
          if c = CHR ''-''
          then (if r \<noteq> [] \<and> list_all is_digit r then Inr (- int (nat_of_digits r))
                else Inl ValueError)
          else (if list_all is_digit s then Inr (int (nat_of_digits s)) else Inl ValueError))"

definition x_int_of_float :: "xfloat \<Rightarrow> error + int" where
  "x_int_of_float x =
     (case x of
        None \<Rightarrow> Inl ValueError
      | Some q \<Rightarrow> Inr (if 0 \<le> q then \<lfloor>q\<rfloor> else \<lceil>q\<rceil>))"

definition x_fsub :: "xfloat \<Rightarrow> xfloat \<Rightarrow> xfloat" where
  "x_fsub a b =
     (case a of None \<Rightarrow> None
      | Some x \<Rightarrow> (case b of None \<Rightarrow> None | Some y \<Rightarrow> Some (x - y)))"

definition x_fdiv :: "xfloat \<Rightarrow> xfloat \<Rightarrow> error + xfloat" where
  "x_fdiv a b =
     (case b of
        None \<Rightarrow> Inr None
      | Some y \<Rightarrow>
          if y = 0 then Inl ZeroDivisionError
          else (case a of None \<Rightarrow> Inr None | Some x \<Rightarrow> Inr (Some (x / y))))"

text \<open>Rounding to the nearest integer, ties to the even one.\<close>

definition x_rint :: "xfloat \<Rightarrow> xfloat" where
  "x_rint a =
     (case a of
        None \<Rightarrow> None
      | Some q \<Rightarrow>
          let f = \<lfloor>q\<rfloor>; d = q - of_int f in
          Some (of_int (if d < 1 / 2 then f
                        else if 1 / 2 < d then f + 1
                        else if even f then f else f + 1)))"

text \<open>\<^verbatim>\<open>str(x)\<close> on the floats that are integers; a stand-in on the others.\<close>

definition x_str_of_float :: "xfloat \<Rightarrow> string" where
  "x_str_of_float a =
     (case a of
        None \<Rightarrow> ''nan''
      | Some q \<Rightarrow>
          if q = of_int \<lfloor>q\<rfloor> then str_of_int \<lfloor>q\<rfloor> @ ''.0''
          else str_of_int (fst (quotient_of q)) @ ''/'' @ str_of_int (snd (quotient_of q)))"

definition x_ops :: "xfloat float_ops" where
  "x_ops = \<lparr>float_of_str = x_float_of_str,
            float_of_int = (\<lambda>n. Some (of_int n)),
            int_of_str = x_int_of_str,
            int_of_float = x_int_of_float,
            fsub = x_fsub,
            fdiv = x_fdiv,
            rint = x_rint,
            isnan = (\<lambda>x. x = None),
            nan = None,
            str_of_float = x_str_of_float\<rparr>"

text \<open>
  The options record \<^verbatim>\<open>parse_args\<close> builds for
  \<^verbatim>\<open>radar2geo.py FILES -l LOOKUP [-t TEMPLATE]\<close>: every other option at its default.
\<close>

definition x_inps :: "string list \<Rightarrow> string option \<Rightarrow> string option \<Rightarrow> (xfloat, unit) inps" where
  "x_inps fs lk tf =
     \<lparr>files = fs, lookupFile = lk, templateFile = tf, SNWE = None, latStep = None,
      lonStep = None, interpMethod = TStr ''nearest'', fillValue = None, outfile = None,
      laloStep = None, outShape = None, src_def = None, dest_def = None\<rparr>"

text \<open>
  Collaborators for the examples: every named file exists, the template file holds
  \<open>t\<close>, every input file is a two by two array (an array is its shape) with metadata
  \<open>meta\<close>, the lookup table sends every reference pixel to \<open>geo\<close>, and the output grid
  is the unit box.
\<close>

definition x_env ::
  "(xfloat, unit) inps \<Rightarrow> template \<Rightarrow> xfloat attrs \<Rightarrow> xfloat \<times> xfloat
     \<Rightarrow> (xfloat, nat list, unit, xfloat resample_args) env" where
  "x_env p t meta geo =
     \<lparr>parse_args = (\<lambda>a. Inr p),
      get_file_list = (\<lambda>fs. fs),
      get_lookup_file = (\<lambda>l. l),
      read_template = (\<lambda>f. t),
      check_template_auto_value = (\<lambda>d. d),
      radar2glob = (\<lambda>y x l d. geo),
      readfile_read = (\<lambda>f. ([2, 2], meta)),
      shape = (\<lambda>d. d),
      moveaxis = (\<lambda>d a b. if a = 0 then rotate1 d else last d # butlast d),
      resample_init = (\<lambda>a. a),
      get_geometry_definition = (\<lambda>r. ((), (), [Some 0, Some 1, Some 0, Some 1])),
      resample = (\<lambda>r d s t m f. d),
      time_used = ''0.00''\<rparr>"

text \<open>
  The world at the start of the process, and a world in which one dictionary, with
  the contents \<open>meta\<close>, has been allocated at reference 0.
\<close>

definition world0 :: "('f, 'd) world" where
  "world0 = \<lparr>heap = (\<lambda>a. Map.empty), nxt = 0, events = []\<rparr>"

definition x_world :: "'f attrs \<Rightarrow> ('f, 'd) world" where
  "x_world meta = \<lparr>heap = (\<lambda>a. Map.empty)(0 := meta), nxt = 1, events = []\<rparr>"

text \<open>Options as \<^verbatim>\<open>geocode_file\<close> hands them to \<^verbatim>\<open>update_attribute\<close>.\<close>

definition x_geo_inps :: "xfloat list \<Rightarrow> nat list \<Rightarrow> (xfloat, unit) inps" where
  "x_geo_inps box dims =
     (x_inps [''velocity.h5''] (Some ''geometryRadar.h5'') None)
       \<lparr>SNWE := Some box, outShape := Some dims, src_def := Some (), dest_def := Some ()\<rparr>"

text \<open>
  Metadata of a radar-coded file with a reference pixel and a stray \<^verbatim>\<open>REF_LON\<close>, and the
  run of \<^verbatim>\<open>update_attribute\<close> on it for a three by two by four output on the unit
  box, with a lookup table that does not cover the reference pixel.
\<close>

definition x_meta :: "xfloat attrs" where
  "x_meta = [''FILE_TYPE'' \<mapsto> PStr ''velocity'', ''REF_Y'' \<mapsto> PStr ''10'',
             ''REF_X'' \<mapsto> PStr ''20'', ''REF_LON'' \<mapsto> PStr ''-91.2'']"

definition x_run :: "(error + nat) \<times> (xfloat, nat list) world" where
  "x_run = update_attribute x_ops (x_env (x_inps [] None None) Map.empty Map.empty (None, None)) 0
             (x_geo_inps [Some 0, Some 1, Some 0, Some 1] [3, 2, 4]) True (x_world x_meta)"

text \<open>
  The options of \<^verbatim>\<open>radar2geo.py velocity.h5 -l geometryRadar.h5 -t pysarApp_template.txt\<close>,
  a template that sets every geocoding option, and \<^verbatim>\<open>read_template2inps\<close> run at the
  start of the process on options \<open>p\<close> and a template \<open>t\<close>.
\<close>

definition x_p :: "(xfloat, unit) inps" where
  "x_p = x_inps [''velocity.h5''] (Some ''geometryRadar.h5'') (Some ''pysarApp_template.txt'')"

definition x_template :: template where
  "x_template = [''pysar.geocode'' \<mapsto> TBool True,
                 ''pysar.geocode.SNWE'' \<mapsto> TStr ''-0.5,0.5,10,11'',
                 ''pysar.geocode.latStep'' \<mapsto> TStr ''0.25'',
                 ''pysar.geocode.lonStep'' \<mapsto> TStr ''0.5'',
                 ''pysar.geocode.interpMethod'' \<mapsto> TStr ''bilinear'',
                 ''pysar.geocode.fillValue'' \<mapsto> TStr ''NaN'']"

definition x_read ::
  "(xfloat, unit) inps \<Rightarrow> template \<Rightarrow> (error + (xfloat, unit) inps) \<times> (xfloat, nat list) world" where
  "x_read p t = read_template2inps x_ops (x_env p t Map.empty (None, None))
                  ''pysarApp_template.txt'' (Some p) world0"

definition x_read_world :: "(xfloat, nat list) world" where
  "x_read_world = world0\<lparr>events := [Print ''read input option from template file: pysarApp_template.txt'']\<rparr>"

text \<open>The same run on other metadata, lookup results and output shapes.\<close>

definition x_run_on ::
  "xfloat attrs \<Rightarrow> xfloat \<times> xfloat \<Rightarrow> nat list \<Rightarrow> (error + nat) \<times> (xfloat, nat list) world" where
  "x_run_on meta geo dims =
     update_attribute x_ops (x_env (x_inps [] None None) Map.empty Map.empty geo) 0
       (x_geo_inps [Some 0, Some 1, Some 0, Some 1] dims) True (x_world meta)"

section \<open>The template loop, key by key\<close>

text \<open>
  The keys for which the loop body has a branch, and the loop written over all keys of
  the options record: a key that the template lacks is skipped, which is what building
  \<^verbatim>\<open>key_list\<close> first comes to.
\<close>

definition option_keys :: "string list" where
  "option_keys = [''SNWE'', ''latStep'', ''lonStep'', ''interpMethod'', ''fillValue'']"

definition template_step ::
  "'f float_ops \<Rightarrow> template \<Rightarrow> string \<Rightarrow> ('f, 'g) inps \<Rightarrow> error + ('f, 'g) inps" where
  "template_step ops t key i =
     (case t (prefix @ key) of
        None \<Rightarrow> Inr i
      | Some val \<Rightarrow> if truthy_tval val then assign_option ops key val i else Inr i)"

fun template_steps ::
  "'f float_ops \<Rightarrow> template \<Rightarrow> string list \<Rightarrow> ('f, 'g) inps \<Rightarrow> error + ('f, 'g) inps" where
  "template_steps ops t [] i = Inr i"
| "template_steps ops t (key # keys) i =
     (case template_step ops t key i of
        Inl err \<Rightarrow> Inl err
      | Inr i' \<Rightarrow> template_steps ops t keys i')"

text \<open>
  The option of the record that a key of \<open>option_keys\<close> names, and the values that the
  conversions of the loop body refuse: a truthy value whose parts \<^verbatim>\<open>float\<close> rejects
  (\<^verbatim>\<open>SNWE\<close>), that \<^verbatim>\<open>float\<close> rejects (\<^verbatim>\<open>latStep\<close>, \<^verbatim>\<open>lonStep\<close>), or that holds no \<^verbatim>\<open>nan\<close> and
  that \<^verbatim>\<open>float\<close> rejects (\<^verbatim>\<open>fillValue\<close>); a value that is not a string has no \<^verbatim>\<open>split\<close>
  and no \<^verbatim>\<open>lower\<close>.
\<close>

datatype 'f optval = VBox "'f list option" | VStep "'f option" | VInterp tval | VFill 'f

definition get_option :: "string \<Rightarrow> ('f, 'g) inps \<Rightarrow> 'f optval" where
  "get_option key i =
     (if key = ''SNWE'' then VBox (SNWE i)
      else if key = ''latStep'' then VStep (latStep i)
      else if key = ''lonStep'' then VStep (lonStep i)
      else if key = ''interpMethod'' then VInterp (interpMethod i)
      else VFill (fillValue i))"

definition rejects :: "'f float_ops \<Rightarrow> string \<Rightarrow> tval \<Rightarrow> bool" where
  "rejects ops key v =
     (truthy_tval v \<and>
      (if key = ''SNWE'' then
         (case split_tval v of
            Inl err \<Rightarrow> True
          | Inr parts \<Rightarrow> isl (map_err (float_of_str ops) parts))
       else if key = ''latStep'' \<or> key = ''lonStep'' then isl (float_of_tval ops v)
       else if key = ''fillValue'' then
         (case lower_tval v of
            Inl err \<Rightarrow> True
          | Inr low \<Rightarrow> \<not> str_contains low ''nan'' \<and> isl (float_of_tval ops v))
       else False))"

text \<open>
  The exception a conversion of the loop body raises on a value, if it raises, and the
  world after the line \<^verbatim>\<open>read_template2inps\<close> prints.
\<close>

definition conversion_error :: "'f float_ops \<Rightarrow> string \<Rightarrow> tval \<Rightarrow> error option" where
  "conversion_error ops key v =
     (if key = ''SNWE'' then
        (case split_tval v of
           Inl err \<Rightarrow> Some err
         | Inr parts \<Rightarrow>
             (case map_err (float_of_str ops) parts of Inl err \<Rightarrow> Some err | Inr xs \<Rightarrow> None))
      else if key = ''latStep'' \<or> key = ''lonStep'' then
        (case float_of_tval ops v of Inl err \<Rightarrow> Some err | Inr x \<Rightarrow> None)
      else if key = ''fillValue'' then
        (case lower_tval v of
           Inl err \<Rightarrow> Some err
         | Inr low \<Rightarrow>
             if str_contains low ''nan'' then None
             else (case float_of_tval ops v of Inl err \<Rightarrow> Some err | Inr x \<Rightarrow> None))
      else None)"

definition read_world :: "string \<Rightarrow> ('f, 'd) world \<Rightarrow> ('f, 'd) world" where
  "read_world tf w = w\<lparr>events := events w @ [Print (''read input option from template file: '' @ tf)]\<rparr>"

text \<open>
  The world \<^verbatim>\<open>update_attribute\<close> has reached when it enters the reference block: the copy
  of \<open>atr_in\<close> is the newest dictionary and holds the eight keys of the output grid.
\<close>

definition grid_world ::
  "('f, 'd) world \<Rightarrow> nat \<Rightarrow> nat \<Rightarrow> nat \<Rightarrow> 'f \<Rightarrow> 'f \<Rightarrow> 'f \<Rightarrow> 'f \<Rightarrow> ('f, 'd) world" where
  "grid_world w atr_in len wid N W ys xs =
     w\<lparr>nxt := Suc (nxt w),
       heap := (heap w)(nxt w := (heap w atr_in)
              (''LENGTH'' \<mapsto> PInt (int len), ''WIDTH'' \<mapsto> PInt (int wid),
               ''Y_FIRST'' \<mapsto> PFloat N, ''X_FIRST'' \<mapsto> PFloat W,
               ''Y_STEP'' \<mapsto> PFloat ys, ''X_STEP'' \<mapsto> PFloat xs,
               ''Y_UNIT'' \<mapsto> PStr ''degrees'', ''X_UNIT'' \<mapsto> PStr ''degrees''))\<rparr>"

section \<open>Frame conditions\<close>

text \<open>
  \<open>touches_only a K m\<close>: the statement \<open>m\<close> allocates nothing, and changes the store at
  most at the keys \<open>K\<close> of the dictionary \<open>a\<close>, whether it returns or raises.
  \<open>yields a m\<close>: if \<open>m\<close> returns, it returns \<open>a\<close>.
\<close>

definition touches_only :: "nat \<Rightarrow> string set \<Rightarrow> ('a, 'f, 'd) prog \<Rightarrow> bool" where
  "touches_only a K m =
     (\<forall>w r w'. m w = (r, w') \<longrightarrow>
        nxt w' = nxt w \<and> (\<forall>b. b \<noteq> a \<longrightarrow> heap w' b = heap w b)
        \<and> (\<forall>k. k \<notin> K \<longrightarrow> heap w' a k = heap w a k))"

definition yields :: "'a \<Rightarrow> ('a, 'f, 'd) prog \<Rightarrow> bool" where
  "yields a m = (\<forall>w x w'. m w = (Inr x, w') \<longrightarrow> x = a)"

text \<open>The keys \<^verbatim>\<open>update_attribute\<close> assigns for the output grid, and those of the reference point.\<close>

definition grid_keys :: "string set" where
  "grid_keys = {''LENGTH'', ''WIDTH'', ''Y_FIRST'', ''X_FIRST'', ''Y_STEP'', ''X_STEP'',
                ''Y_UNIT'', ''X_UNIT''}"

definition ref_keys :: "string set" where
  "ref_keys = {''REF_Y'', ''REF_X'', ''REF_LAT'', ''REF_LON''}"

section \<open>Evaluation of the instance\<close>

lemmas x_eval =
  lower_def lower_char_def x_float_of_str_def x_unsigned_def is_digit_def digit_val_def
  nat_of_digits_def x_int_of_str_def x_int_of_float_def x_fsub_def x_fdiv_def x_ops_def
  x_env_def x_inps_def x_geo_inps_def world0_def x_world_def

lemmas prog_eval =
  bind_def ret_def lift_def emit_def try_pass_def dict_new_def dict_copy_def dict_read_def
  setitem_def getitem_def has_key_def pop_def last_two_def snwe_item_def attribute_def

lemmas template_eval =
  read_template2inps_def assign_option_def inps_keys_def prefix_def make_laloStep_def x_p_def

lemma touches_only_bind:
  assumes "touches_only a K m" and "\<And>x. touches_only a K (f x)"
  shows "touches_only a K (bind m f)"
  using assms unfolding touches_only_def bind_def
  by (fastforce split: prod.splits sum.splits)

lemma touches_only_ret: "touches_only a K (ret x)"
  by (simp add: touches_only_def ret_def)

lemma touches_only_lift: "touches_only a K (lift r)"
  by (simp add: touches_only_def lift_def)

lemma touches_only_emit: "touches_only a K (emit ev)"
  by (auto simp add: touches_only_def emit_def)

lemma touches_only_getitem: "touches_only a K (getitem b k)"
  by (auto simp add: touches_only_def getitem_def split: option.splits)

lemma touches_only_has_key: "touches_only a K (has_key b k)"
  by (auto simp add: touches_only_def has_key_def)

lemma touches_only_dict_read: "touches_only a K (dict_read b)"
  by (auto simp add: touches_only_def dict_read_def)

lemma touches_only_setitem: "k \<in> K \<Longrightarrow> touches_only a K (setitem a k v)"
  by (auto simp add: touches_only_def setitem_def)

lemma touches_only_pop: "k \<in> K \<Longrightarrow> touches_only a K (pop a k)"
  by (auto simp add: touches_only_def pop_def split: option.splits)

lemma touches_only_try_pass: "touches_only a K m \<Longrightarrow> touches_only a K (try_pass m)"
  unfolding touches_only_def try_pass_def by (fastforce split: prod.splits)

lemma touches_only_if:
  "touches_only a K m1 \<Longrightarrow> touches_only a K m2 \<Longrightarrow> touches_only a K (if c then m1 else m2)"
  by simp

lemma touches_only_case_prod:
  "(\<And>x y. touches_only a K (f x y)) \<Longrightarrow> touches_only a K (case p of (x, y) \<Rightarrow> f x y)"
  by (cases p) simp

lemmas touches_only_intros =
  touches_only_bind touches_only_ret touches_only_lift touches_only_emit touches_only_getitem
  touches_only_has_key touches_only_dict_read touches_only_setitem touches_only_pop
  touches_only_try_pass touches_only_if touches_only_case_prod

lemma touches_only_mono: "touches_only a K m \<Longrightarrow> K \<subseteq> K' \<Longrightarrow> touches_only a K' m"
  unfolding touches_only_def by blast

lemma touches_onlyD:
  assumes "touches_only a K m" and "m w = (r, w')"
  shows "nxt w' = nxt w" and "b \<noteq> a \<Longrightarrow> heap w' b = heap w b"
    and "k \<notin> K \<Longrightarrow> heap w' a k = heap w a k"
  using assms unfolding touches_only_def by blast+

lemma yields_bind: "(\<And>x. yields a (f x)) \<Longrightarrow> yields a (bind m f)"
  unfolding yields_def bind_def by (fastforce split: prod.splits sum.splits)

lemma yields_ret: "yields a (ret a)"
  by (simp add: yields_def ret_def)

lemma yields_case_prod: "(\<And>x y. yields a (f x y)) \<Longrightarrow> yields a (case p of (x, y) \<Rightarrow> f x y)"
  by (cases p) simp

lemma bind_Inr:
  "bind m f w = (Inr y, w') \<longleftrightarrow> (\<exists>x w1. m w = (Inr x, w1) \<and> f x w1 = (Inr y, w'))"
  by (auto simp add: bind_def split: prod.splits sum.splits)

text \<open>The reference block touches the four reference keys of the copy and nothing else.\<close>

lemma touches_only_ref_index: "touches_only a K (ref_index ops a r k1 k2)"
  unfolding ref_index_def by (intro touches_only_intros)

lemma touches_only_update_reference:
  "touches_only atr ref_keys (update_reference ops e atr_in atr i pm)"
  unfolding update_reference_def
  by (intro touches_only_intros touches_only_ref_index) (simp_all add: ref_keys_def)

text \<open>A statement that runs on a fresh copy of \<open>atr_in\<close> leaves every older dictionary alone.\<close>

lemma copy_then:
  assumes run: "bind (dict_copy atr_in) f w = (r, w')"
    and t: "\<And>a. touches_only a K (f a)"
    and y: "\<And>a. yields a (f a)"
    and old: "atr_in < nxt w"
  shows "(\<forall>b < nxt w. heap w' b = heap w b)
       \<and> (\<forall>atr. r = Inr atr \<longrightarrow> atr = nxt w \<and> (\<forall>k. k \<notin> K \<longrightarrow> heap w' atr k = heap w atr_in k))"
proof -
  let ?w1 = "w\<lparr>heap := (heap w)(nxt w := heap w atr_in), nxt := Suc (nxt w)\<rparr>"
  from run have m: "f (nxt w) ?w1 = (r, w')"
    by (simp add: bind_def dict_copy_def dict_new_def)
  have "heap w' b = heap w b" if "b < nxt w" for b
    using touches_onlyD(2) [OF t m, of b] that by simp
  moreover have "atr = nxt w" if "r = Inr atr" for atr
    using y m that unfolding yields_def by blast
  moreover have "heap w' (nxt w) k = heap w atr_in k" if "k \<notin> K" for k
    using touches_onlyD(3) [OF t m that] by simp
  ultimately show ?thesis by blast
qed

lemma update_attribute_frame:
  assumes "atr_in < nxt w"
    and "update_attribute ops e atr_in i pm w = (r, w')"
  shows "(\<forall>b < nxt w. heap w' b = heap w b)
       \<and> (\<forall>atr. r = Inr atr \<longrightarrow> atr = nxt w
             \<and> (\<forall>k. k \<notin> grid_keys \<union> ref_keys \<longrightarrow> heap w' atr k = heap w atr_in k))"
  using assms(2) unfolding update_attribute_def
  apply (rule copy_then)
  subgoal
    by (intro touches_only_intros touches_only_mono [OF touches_only_update_reference])
       (auto simp add: grid_keys_def)
  subgoal by (intro yields_bind yields_ret yields_case_prod)
  subgoal by (rule assms(1))
  done

text \<open>A run of \<^verbatim>\<open>update_attribute\<close> that returns, up to the reference block.\<close>

lemma update_attribute_grid_aux:
  assumes box: "SNWE i = Some [S, N, W, E]"
    and sh: "outShape i = Some (dims @ [len, wid])"
    and run: "update_attribute ops e atr_in i pm w = (Inr atr, w')"
  shows "\<exists>ys xs w2. fdiv ops (fsub ops S N) (float_of_int ops (int len)) = Inr ys
           \<and> fdiv ops (fsub ops E W) (float_of_int ops (int wid)) = Inr xs
           \<and> update_reference ops e atr_in atr i pm w2 = (Inr (), w')
           \<and> heap w2 atr ''LENGTH'' = Some (PInt (int len))
           \<and> heap w2 atr ''WIDTH'' = Some (PInt (int wid))
           \<and> heap w2 atr ''Y_FIRST'' = Some (PFloat N)
           \<and> heap w2 atr ''X_FIRST'' = Some (PFloat W)
           \<and> heap w2 atr ''Y_STEP'' = Some (PFloat ys)
           \<and> heap w2 atr ''X_STEP'' = Some (PFloat xs)"
  using run unfolding update_attribute_def
  apply (clarsimp simp add: bind_Inr lift_def setitem_def dict_copy_def dict_new_def ret_def
        last_two_def snwe_item_def box sh)
  apply (rule exI, rule conjI, assumption)
  apply simp
  done

section \<open>Exits of cmd_line_parse\<close>

text \<open>
  Claim C1. Once the parser has accepted the command line, \<open>cmd_line_parse\<close> raises
  \<^verbatim>\<open>SystemExit\<close> with the message \<^verbatim>\<open>ERROR: no input file found!\<close> when
  \<^verbatim>\<open>ut.get_file_list\<close> resolves no input file, raises \<^verbatim>\<open>SystemExit\<close> with the message
  \<^verbatim>\<open>ERROR: No lookup table found! Can not geocode without it.\<close> when input files are
  found and \<^verbatim>\<open>ut.get_lookup_file\<close> resolves no lookup table, and otherwise returns the
  parsed options record with the resolved file list, the resolved lookup file and
  \<^verbatim>\<open>laloStep\<close> filled in. Nothing in the script catches \<^verbatim>\<open>SystemExit\<close>, so the
  interpreter prints the message and ends the process.
\<close>

theorem cmd_line_parse_exits:
  assumes "parse_args e iargs = Inr p"
  shows "(get_file_list e (files p) = [] \<longrightarrow>
            cmd_line_parse e iargs = Inl (SystemExit ''ERROR: no input file found!''))
       \<and> (get_file_list e (files p) \<noteq> [] \<and> \<not> truthy_str (get_lookup_file e (lookupFile p)) \<longrightarrow>
            cmd_line_parse e iargs =
              Inl (SystemExit ''ERROR: No lookup table found! Can not geocode without it.''))
       \<and> (get_file_list e (files p) \<noteq> [] \<and> truthy_str (get_lookup_file e (lookupFile p)) \<longrightarrow>
            cmd_line_parse e iargs =
              Inr (p\<lparr>files := get_file_list e (files p),
                     lookupFile := get_lookup_file e (lookupFile p),
                     laloStep := make_laloStep (latStep p) (lonStep p)\<rparr>))"
  using assms by (simp add: cmd_line_parse_def Let_def)

theorem cmd_line_parse_exits_witness:
  "cmd_line_parse (x_env (x_inps [] (Some ''geometryRadar.h5'') None) Map.empty Map.empty (None, None)) None
     = Inl (SystemExit ''ERROR: no input file found!'')
   \<and> cmd_line_parse (x_env (x_inps [''velocity.h5''] None None) Map.empty Map.empty (None, None)) None
     = Inl (SystemExit ''ERROR: No lookup table found! Can not geocode without it.'')
   \<and> cmd_line_parse (x_env (x_inps [''velocity.h5''] (Some ''geometryRadar.h5'') None)
        Map.empty Map.empty (None, None)) None
     = Inr (x_inps [''velocity.h5''] (Some ''geometryRadar.h5'') None)"
proof (intro conjI)
  let ?e1 = "x_env (x_inps [] (Some ''geometryRadar.h5'') None) Map.empty Map.empty (None, None)"
  have "parse_args ?e1 None = Inr (x_inps [] (Some ''geometryRadar.h5'') None)"
    by (simp add: x_env_def)
  from cmd_line_parse_exits [OF this]
  show "cmd_line_parse ?e1 None = Inl (SystemExit ''ERROR: no input file found!'')"
    by (simp add: x_env_def x_inps_def)
next
  let ?e2 = "x_env (x_inps [''velocity.h5''] None None) Map.empty Map.empty (None, None)"
  have "parse_args ?e2 None = Inr (x_inps [''velocity.h5''] None None)"
    by (simp add: x_env_def)
  from cmd_line_parse_exits [OF this]
  show "cmd_line_parse ?e2 None
          = Inl (SystemExit ''ERROR: No lookup table found! Can not geocode without it.'')"
    by (simp add: x_env_def x_inps_def truthy_str_def)
next
  let ?p = "x_inps [''velocity.h5''] (Some ''geometryRadar.h5'') None"
  let ?e3 = "x_env ?p Map.empty Map.empty (None, None)"
  have "parse_args ?e3 None = Inr ?p"
    by (simp add: x_env_def)
  from cmd_line_parse_exits [OF this]
  show "cmd_line_parse ?e3 None = Inr ?p"
    by (simp add: x_env_def x_inps_def truthy_str_def make_laloStep_def)
qed

section \<open>The metadata of the output grid\<close>

lemma x_run_eval:
  "x_run =
     (Inr 1,
      \<lparr>heap = ((\<lambda>a. Map.empty)(0 := x_meta))
         (1 := x_meta(''LENGTH'' \<mapsto> PInt 2, ''WIDTH'' \<mapsto> PInt 4,
               ''Y_FIRST'' \<mapsto> PFloat (Some 1), ''X_FIRST'' \<mapsto> PFloat (Some 0),
               ''Y_STEP'' \<mapsto> PFloat (Some (- 1 / 2)), ''X_STEP'' \<mapsto> PFloat (Some (1 / 4)),
               ''Y_UNIT'' \<mapsto> PStr ''degrees'', ''X_UNIT'' \<mapsto> PStr ''degrees'',
               ''REF_Y'' := None, ''REF_X'' := None)),
       nxt = 2, events = [Warn warn_msg]\<rparr>)"
  by (simp add: x_run_def update_attribute_def update_reference_def prog_eval x_eval x_meta_def)

text \<open>
  Whenever \<open>update_attribute\<close> returns, the six keys of the output grid hold what the
  bounding box and the shape give, and both divisions were defined.
\<close>

lemma update_attribute_grid_if_returns:
  assumes box: "SNWE i = Some [S, N, W, E]"
    and sh: "outShape i = Some (dims @ [len, wid])"
    and run: "update_attribute ops e atr_in i pm w = (Inr atr, w')"
  shows "heap w' atr ''LENGTH'' = Some (PInt (int len))
       \<and> heap w' atr ''WIDTH'' = Some (PInt (int wid))
       \<and> heap w' atr ''Y_FIRST'' = Some (PFloat N)
       \<and> heap w' atr ''X_FIRST'' = Some (PFloat W)
       \<and> (\<exists>ys. fdiv ops (fsub ops S N) (float_of_int ops (int len)) = Inr ys
              \<and> heap w' atr ''Y_STEP'' = Some (PFloat ys))
       \<and> (\<exists>xs. fdiv ops (fsub ops E W) (float_of_int ops (int wid)) = Inr xs
              \<and> heap w' atr ''X_STEP'' = Some (PFloat xs))"
proof -
  from update_attribute_grid_aux [OF assms] obtain ys xs w2 where
    ys: "fdiv ops (fsub ops S N) (float_of_int ops (int len)) = Inr ys"
    and xs: "fdiv ops (fsub ops E W) (float_of_int ops (int wid)) = Inr xs"
    and ref: "update_reference ops e atr_in atr i pm w2 = (Inr (), w')"
    and vals: "heap w2 atr ''LENGTH'' = Some (PInt (int len))"
      "heap w2 atr ''WIDTH'' = Some (PInt (int wid))"
      "heap w2 atr ''Y_FIRST'' = Some (PFloat N)"
      "heap w2 atr ''X_FIRST'' = Some (PFloat W)"
      "heap w2 atr ''Y_STEP'' = Some (PFloat ys)"
      "heap w2 atr ''X_STEP'' = Some (PFloat xs)"
    by blast
  have keep: "heap w' atr k = heap w2 atr k" if "k \<notin> ref_keys" for k
    by (rule touches_onlyD(3) [OF touches_only_update_reference ref that])
  show ?thesis
    using ys xs vals by (simp add: keep ref_keys_def)
qed

section \<open>The reference pixel\<close>

lemma ref_index_state: "ref_index ops atr r k1 k2 w = (res, w') \<Longrightarrow> w' = w"
  by (auto simp add: ref_index_def prog_eval split: option.splits sum.splits)

text \<open>
  What the reference block does once \<^verbatim>\<open>REF_Y\<close> and \<^verbatim>\<open>REF_X\<close> have been read as integers.
  Inside the coverage of the lookup table it stores the remapped latitude and longitude
  and the rounded new indices; outside, it warns and removes \<^verbatim>\<open>REF_Y\<close>, \<^verbatim>\<open>REF_X\<close> and
  \<^verbatim>\<open>REF_LAT\<close>, and it removes \<^verbatim>\<open>REF_LON\<close> only if \<^verbatim>\<open>REF_LAT\<close> was there: the two
  \<^verbatim>\<open>pop\<close> calls share one \<^verbatim>\<open>try\<close>, and the first one raising skips the second.
\<close>

lemma update_reference_in_coverage:
  assumes run: "update_reference ops e atr_in atr i pm w = (Inr u, w')"
    and "heap w atr ''REF_Y'' = Some vy" and "py_int ops vy = Inr y"
    and "heap w atr ''REF_X'' = Some vx" and "py_int ops vx = Inr x"
    and "radar2glob e y x (lookupFile i) (heap w atr_in) = (lat, lon)"
    and "\<not> isnan ops lat" and "\<not> isnan ops lon"
  shows "\<exists>ref_y ref_x.
           ref_index ops atr lat ''Y_FIRST'' ''Y_STEP'' w = (Inr ref_y, w)
         \<and> ref_index ops atr lon ''X_FIRST'' ''X_STEP'' w = (Inr ref_x, w)
         \<and> heap w' atr ''REF_LAT'' = Some (PStr (str_of_float ops lat))
         \<and> heap w' atr ''REF_LON'' = Some (PStr (str_of_float ops lon))
         \<and> heap w' atr ''REF_Y'' = Some (PStr (str_of_int ref_y))
         \<and> heap w' atr ''REF_X'' = Some (PStr (str_of_int ref_x))"
proof -
  obtain r1 w1 where a: "ref_index ops atr lat ''Y_FIRST'' ''Y_STEP'' w = (r1, w1)"
    by fastforce
  obtain r2 w2 where b: "ref_index ops atr lon ''X_FIRST'' ''X_STEP'' w = (r2, w2)"
    by fastforce
  from a b have same: "w1 = w" "w2 = w"
    by (auto dest: ref_index_state)
  from assms a b same show ?thesis
    by (cases r1; cases r2)
       (auto simp add: update_reference_def prog_eval split: if_splits)
qed

lemma update_reference_out_of_coverage:
  assumes run: "update_reference ops e atr_in atr i pm w = (res, w')"
    and "heap w atr ''REF_Y'' = Some vy" and "py_int ops vy = Inr y"
    and "heap w atr ''REF_X'' = Some vx" and "py_int ops vx = Inr x"
    and "radar2glob e y x (lookupFile i) (heap w atr_in) = (lat, lon)"
    and "isnan ops lat \<or> isnan ops lon"
  shows "res = Inr ()
       \<and> events w' = events w @ [Warn warn_msg]
       \<and> heap w' atr ''REF_Y'' = None \<and> heap w' atr ''REF_X'' = None
       \<and> heap w' atr ''REF_LAT'' = None
       \<and> heap w' atr ''REF_LON'' =
           (if heap w atr ''REF_LAT'' = None then heap w atr ''REF_LON'' else None)"
  using assms
  by (auto simp add: update_reference_def prog_eval split: option.splits)

text \<open>
  Claim C3. The claim has \<^verbatim>\<open>REF_Y\<close>, \<^verbatim>\<open>REF_X\<close>, \<^verbatim>\<open>REF_LAT\<close> and \<^verbatim>\<open>REF_LON\<close> all removed when
  the reference pixel is outside the coverage of the lookup table. On the metadata
  \<open>x_meta\<close>, which has \<^verbatim>\<open>REF_Y\<close>, \<^verbatim>\<open>REF_X\<close> and \<^verbatim>\<open>REF_LON\<close> but no \<^verbatim>\<open>REF_LAT\<close>, and a lookup
  table that sends the reference pixel to NaN, \<open>update_attribute\<close> returns, issues the
  warning, removes \<^verbatim>\<open>REF_Y\<close> and \<^verbatim>\<open>REF_X\<close>, and leaves \<^verbatim>\<open>REF_LON\<close> in the returned
  metadata.
\<close>

theorem update_attribute_keeps_REF_LON:
  "fst x_run = Inr 1
   \<and> events (snd x_run) = [Warn warn_msg]
   \<and> heap (snd x_run) 1 ''REF_Y'' = None
   \<and> heap (snd x_run) 1 ''REF_X'' = None
   \<and> heap (snd x_run) 1 ''REF_LAT'' = None
   \<and> heap (snd x_run) 1 ''REF_LON'' = Some (PStr ''-91.2'')"
  by (simp add: x_run_eval x_meta_def)

section \<open>When update_attribute returns\<close>

lemma update_attribute_forward:
  assumes box: "SNWE i = Some [S, N, W, E]"
    and sh: "outShape i = Some (dims @ [len, wid])"
    and ys: "fdiv ops (fsub ops S N) (float_of_int ops (int len)) = Inr ys"
    and xs: "fdiv ops (fsub ops E W) (float_of_int ops (int wid)) = Inr xs"
  shows "update_attribute ops e atr_in i pm w =
           bind (update_reference ops e atr_in (nxt w) i pm) (\<lambda>_. ret (nxt w))
             (grid_world w atr_in len wid N W ys xs)"
  by (simp add: update_attribute_def bind_def lift_def setitem_def dict_copy_def dict_new_def
        last_two_def snwe_item_def box sh ys xs grid_world_def)

lemma update_reference_absent:
  "heap w atr ''REF_Y'' = None \<Longrightarrow> update_reference ops e atr_in atr i pm w = (Inr (), w)"
  by (simp add: update_reference_def bind_def has_key_def ret_def)

lemma update_reference_returns:
  assumes "heap w atr ''REF_Y'' = Some vy" and "py_int ops vy = Inr y"
    and "heap w atr ''REF_X'' = Some vx" and "py_int ops vx = Inr x"
    and "radar2glob e y x (lookupFile i) (heap w atr_in) = (lat, lon)"
    and "heap w atr ''Y_FIRST'' = Some (PFloat N)" and "heap w atr ''Y_STEP'' = Some (PFloat ys)"
    and "heap w atr ''X_FIRST'' = Some (PFloat W)" and "heap w atr ''X_STEP'' = Some (PFloat xs)"
    and "isnan ops lat \<or> isnan ops lon \<or>
         (\<exists>qy ry qx rx. fdiv ops (fsub ops lat N) ys = Inr qy \<and> int_of_float ops (rint ops qy) = Inr ry
            \<and> fdiv ops (fsub ops lon W) xs = Inr qx \<and> int_of_float ops (rint ops qx) = Inr rx)"
  shows "\<exists>w'. update_reference ops e atr_in atr i pm w = (Inr (), w')"
proof (cases "isnan ops lat \<or> isnan ops lon")
  case True
  obtain res w' where run: "update_reference ops e atr_in atr i pm w = (res, w')"
    by (cases "update_reference ops e atr_in atr i pm w")
  from update_reference_out_of_coverage [OF run assms(1-5) True] run show ?thesis
    by simp
next
  case False
  with assms(10) obtain qy ry qx rx where
    "fdiv ops (fsub ops lat N) ys = Inr qy" "int_of_float ops (rint ops qy) = Inr ry"
    "fdiv ops (fsub ops lon W) xs = Inr qx" "int_of_float ops (rint ops qx) = Inr rx"
    by (elim disjE exE conjE) simp_all
  with False assms(1-9) show ?thesis
    by (simp add: update_reference_def ref_index_def prog_eval)
qed

text \<open>
  The claim C2 has \<open>update_attribute\<close> return for every metadata mapping. It raises
  \<^verbatim>\<open>KeyError\<close> on metadata that hold \<^verbatim>\<open>REF_Y\<close> without \<^verbatim>\<open>REF_X\<close>, and
  \<^verbatim>\<open>ZeroDivisionError\<close> on an output of length zero, the bounding box and the shape being
  as the claim wants them.
\<close>

theorem update_attribute_raises:
  "fst (x_run_on [''REF_Y'' \<mapsto> PStr ''10''] (None, None) [3, 2, 4]) = Inl (KeyError ''REF_X'')
   \<and> fst (x_run_on Map.empty (None, None) [0, 4]) = Inl ZeroDivisionError"
  by (simp add: x_run_on_def update_attribute_def update_reference_def prog_eval x_eval)

text \<open>
  Claim C2, amended. Let the options have the bounding box \<open>(S, N, W, E)\<close> and an output
  shape that ends in \<open>(len, wid)\<close>, let both divisions \<^verbatim>\<open>(S - N) / len\<close> and
  \<^verbatim>\<open>(E - W) / wid\<close> be defined, and let the reference block have what it needs: the
  metadata hold no \<^verbatim>\<open>REF_Y\<close>; or they hold \<^verbatim>\<open>REF_Y\<close> and \<^verbatim>\<open>REF_X\<close>, both convertible by
  \<^verbatim>\<open>int\<close>, and the remapped reference is NaN in one coordinate or both of its new
  indices can be computed. Then \<open>update_attribute\<close> returns, and the metadata it returns
  have \<^verbatim>\<open>LENGTH = len\<close>, \<^verbatim>\<open>WIDTH = wid\<close>, \<^verbatim>\<open>Y_FIRST = N\<close>, \<^verbatim>\<open>X_FIRST = W\<close>,
  \<^verbatim>\<open>Y_STEP = (S - N) / len\<close> and \<^verbatim>\<open>X_STEP = (E - W) / wid\<close>.
\<close>

theorem update_attribute_grid:
  assumes old: "atr_in < nxt w"
    and box: "SNWE i = Some [S, N, W, E]"
    and sh: "outShape i = Some (dims @ [len, wid])"
    and ys: "fdiv ops (fsub ops S N) (float_of_int ops (int len)) = Inr ys"
    and xs: "fdiv ops (fsub ops E W) (float_of_int ops (int wid)) = Inr xs"
    and ref: "heap w atr_in ''REF_Y'' = None \<or>
       (\<exists>vy vx y x lat lon.
          heap w atr_in ''REF_Y'' = Some vy \<and> py_int ops vy = Inr y
        \<and> heap w atr_in ''REF_X'' = Some vx \<and> py_int ops vx = Inr x
        \<and> radar2glob e y x (lookupFile i) (heap w atr_in) = (lat, lon)
        \<and> (isnan ops lat \<or> isnan ops lon \<or>
             (\<exists>qy ry qx rx.
                fdiv ops (fsub ops lat N) ys = Inr qy \<and> int_of_float ops (rint ops qy) = Inr ry
              \<and> fdiv ops (fsub ops lon W) xs = Inr qx \<and> int_of_float ops (rint ops qx) = Inr rx)))"
  shows "\<exists>atr w'. update_attribute ops e atr_in i pm w = (Inr atr, w')
         \<and> heap w' atr ''LENGTH'' = Some (PInt (int len))
         \<and> heap w' atr ''WIDTH'' = Some (PInt (int wid))
         \<and> heap w' atr ''Y_FIRST'' = Some (PFloat N)
         \<and> heap w' atr ''X_FIRST'' = Some (PFloat W)
         \<and> heap w' atr ''Y_STEP'' = Some (PFloat ys)
         \<and> heap w' atr ''X_STEP'' = Some (PFloat xs)"
proof -
  let ?atr = "nxt w"
  let ?w2 = "grid_world w atr_in len wid N W ys xs"
  from old have ne: "atr_in \<noteq> nxt w"
    by simp
  have copy: "heap ?w2 ?atr k = heap w atr_in k" if "k \<notin> grid_keys" for k
    using that by (simp add: grid_world_def grid_keys_def)
  have same: "heap ?w2 atr_in = heap w atr_in"
    using ne by (simp add: grid_world_def)
  have vals: "heap ?w2 ?atr ''LENGTH'' = Some (PInt (int len))"
    "heap ?w2 ?atr ''WIDTH'' = Some (PInt (int wid))"
    "heap ?w2 ?atr ''Y_FIRST'' = Some (PFloat N)"
    "heap ?w2 ?atr ''X_FIRST'' = Some (PFloat W)"
    "heap ?w2 ?atr ''Y_STEP'' = Some (PFloat ys)"
    "heap ?w2 ?atr ''X_STEP'' = Some (PFloat xs)"
    by (simp_all add: grid_world_def)
  have ry: "heap ?w2 ?atr ''REF_Y'' = heap w atr_in ''REF_Y''"
    and rx: "heap ?w2 ?atr ''REF_X'' = heap w atr_in ''REF_X''"
    by (simp_all add: copy grid_keys_def)
  from ref have "\<exists>w'. update_reference ops e atr_in ?atr i pm ?w2 = (Inr (), w')"
  proof (rule disjE)
    assume "heap w atr_in ''REF_Y'' = None"
    then show ?thesis
      by (simp add: update_reference_absent ry)
  next
    assume "\<exists>vy vx y x lat lon.
          heap w atr_in ''REF_Y'' = Some vy \<and> py_int ops vy = Inr y
        \<and> heap w atr_in ''REF_X'' = Some vx \<and> py_int ops vx = Inr x
        \<and> radar2glob e y x (lookupFile i) (heap w atr_in) = (lat, lon)
        \<and> (isnan ops lat \<or> isnan ops lon \<or>
             (\<exists>qy ry qx rx.
                fdiv ops (fsub ops lat N) ys = Inr qy \<and> int_of_float ops (rint ops qy) = Inr ry
              \<and> fdiv ops (fsub ops lon W) xs = Inr qx \<and> int_of_float ops (rint ops qx) = Inr rx))"
    then obtain vy vx y x lat lon where
      a: "heap w atr_in ''REF_Y'' = Some vy" "py_int ops vy = Inr y"
      "heap w atr_in ''REF_X'' = Some vx" "py_int ops vx = Inr x"
      "radar2glob e y x (lookupFile i) (heap w atr_in) = (lat, lon)"
      and c: "isnan ops lat \<or> isnan ops lon \<or>
             (\<exists>qy ry qx rx.
                fdiv ops (fsub ops lat N) ys = Inr qy \<and> int_of_float ops (rint ops qy) = Inr ry
              \<and> fdiv ops (fsub ops lon W) xs = Inr qx \<and> int_of_float ops (rint ops qx) = Inr rx)"
      by (elim exE conjE)
    show ?thesis
      by (rule update_reference_returns [OF _ a(2) _ a(4) _ vals(3) vals(5) vals(4) vals(6) c])
         (simp_all add: ry rx a same)
  qed
  then obtain w' where r: "update_reference ops e atr_in ?atr i pm ?w2 = (Inr (), w')"
    by (elim exE)
  have run: "update_attribute ops e atr_in i pm w = (Inr ?atr, w')"
    by (simp add: update_attribute_forward [OF box sh ys xs] bind_def r ret_def)
  have keep: "heap w' ?atr k = heap ?w2 ?atr k" if "k \<notin> ref_keys" for k
    by (rule touches_onlyD(3) [OF touches_only_update_reference r that])
  show ?thesis
    by (intro exI [of _ ?atr] exI [of _ w'] conjI run) (simp_all add: keep ref_keys_def vals)
qed

theorem update_attribute_grid_witness:
  "\<exists>atr w'. x_run = (Inr atr, w')
     \<and> heap w' atr ''LENGTH'' = Some (PInt 2)
     \<and> heap w' atr ''WIDTH'' = Some (PInt 4)
     \<and> heap w' atr ''Y_FIRST'' = Some (PFloat (Some 1))
     \<and> heap w' atr ''X_FIRST'' = Some (PFloat (Some 0))
     \<and> heap w' atr ''Y_STEP'' = Some (PFloat (Some (- 1 / 2)))
     \<and> heap w' atr ''X_STEP'' = Some (PFloat (Some (1 / 4)))"
proof -
  let ?i = "x_geo_inps [Some 0, Some 1, Some 0, Some 1] [3, 2, 4]"
  let ?e = "x_env (x_inps [] None None) Map.empty Map.empty (None, None)
              :: (xfloat, nat list, unit, xfloat resample_args) env"
  let ?w = "x_world x_meta :: (xfloat, nat list) world"
  have old: "0 < nxt ?w"
    by (simp add: x_world_def)
  have box: "SNWE ?i = Some [Some 0, Some 1, Some 0, Some 1]"
    by (simp add: x_geo_inps_def)
  have sh: "outShape ?i = Some ([3] @ [2, 4])"
    by (simp add: x_geo_inps_def)
  have ys: "fdiv x_ops (fsub x_ops (Some 0) (Some 1)) (float_of_int x_ops (int 2)) = Inr (Some (- 1 / 2))"
    by (simp add: x_ops_def x_fsub_def x_fdiv_def)
  have xs: "fdiv x_ops (fsub x_ops (Some 1) (Some 0)) (float_of_int x_ops (int 4)) = Inr (Some (1 / 4))"
    by (simp add: x_ops_def x_fsub_def x_fdiv_def)
  have ref: "heap ?w 0 ''REF_Y'' = None \<or>
       (\<exists>vy vx y x lat lon.
          heap ?w 0 ''REF_Y'' = Some vy \<and> py_int x_ops vy = Inr y
        \<and> heap ?w 0 ''REF_X'' = Some vx \<and> py_int x_ops vx = Inr x
        \<and> radar2glob ?e y x (lookupFile ?i) (heap ?w 0) = (lat, lon)
        \<and> (isnan x_ops lat \<or> isnan x_ops lon \<or>
             (\<exists>qy ry qx rx.
                fdiv x_ops (fsub x_ops lat (Some 1)) (Some (- 1 / 2)) = Inr qy
              \<and> int_of_float x_ops (rint x_ops qy) = Inr ry
              \<and> fdiv x_ops (fsub x_ops lon (Some 0)) (Some (1 / 4)) = Inr qx
              \<and> int_of_float x_ops (rint x_ops qx) = Inr rx)))"
    by (rule disjI2) (simp add: x_world_def x_meta_def x_eval)
  from update_attribute_grid [OF old box sh ys xs ref, of True]
  show ?thesis
    by (simp add: x_run_def)
qed

section \<open>The caller's metadata\<close>

text \<open>
  Claim C10. \<open>update_attribute\<close> works on a new dictionary: whether it returns or
  raises, the dictionary \<open>atr_in\<close> of the caller holds what it held before; and when it
  returns, the dictionary it returns is not \<open>atr_in\<close> and agrees with \<open>atr_in\<close> on every
  key other than \<^verbatim>\<open>LENGTH\<close>, \<^verbatim>\<open>WIDTH\<close>, \<^verbatim>\<open>Y_FIRST\<close>, \<^verbatim>\<open>X_FIRST\<close>, \<^verbatim>\<open>Y_STEP\<close>, \<^verbatim>\<open>X_STEP\<close>, \<^verbatim>\<open>Y_UNIT\<close>,
  \<^verbatim>\<open>X_UNIT\<close>, \<^verbatim>\<open>REF_Y\<close>, \<^verbatim>\<open>REF_X\<close>, \<^verbatim>\<open>REF_LAT\<close> and \<^verbatim>\<open>REF_LON\<close>.
\<close>

theorem update_attribute_copy:
  assumes "atr_in < nxt w"
    and "update_attribute ops e atr_in i pm w = (r, w')"
  shows "heap w' atr_in = heap w atr_in
       \<and> (\<forall>atr. r = Inr atr \<longrightarrow> atr \<noteq> atr_in
             \<and> (\<forall>k. k \<notin> grid_keys \<union> ref_keys \<longrightarrow> heap w' atr k = heap w atr_in k))"
  using update_attribute_frame [OF assms] assms(1) by auto

theorem update_attribute_copy_witness:
  "fst x_run = Inr 1
   \<and> heap (snd x_run) 0 = x_meta
   \<and> heap (snd x_run) 1 ''FILE_TYPE'' = Some (PStr ''velocity'')"
proof -
  have old: "0 < nxt (x_world x_meta :: (xfloat, nat list) world)"
    by (simp add: x_world_def)
  have r: "fst x_run = Inr 1"
    by (simp add: x_run_eval)
  then have run: "update_attribute x_ops (x_env (x_inps [] None None) Map.empty Map.empty (None, None))
                    0 (x_geo_inps [Some 0, Some 1, Some 0, Some 1] [3, 2, 4]) True (x_world x_meta)
                  = (Inr 1, snd x_run)"
    by (simp add: x_run_def [symmetric] prod_eq_iff)
  have k: "''FILE_TYPE'' \<notin> grid_keys \<union> ref_keys"
    by (simp add: grid_keys_def ref_keys_def)
  from update_attribute_copy [OF old run] k r show ?thesis
    by (simp add: x_world_def x_meta_def)
qed

section \<open>Options from the template\<close>

lemma template_loop_filter:
  "template_loop ops t (filter (\<lambda>k. t (prefix @ k) \<noteq> None) keys) i = template_steps ops t keys i"
  by (induction keys arbitrary: i) (auto simp add: template_step_def split: sum.splits)

lemma template_step_other:
  "key \<notin> set option_keys \<Longrightarrow> template_step ops t key i = Inr i"
  by (simp add: template_step_def assign_option_def option_keys_def split: option.splits)

lemma template_steps_inps_keys:
  "template_steps ops t inps_keys i = template_steps ops t option_keys i"
  by (simp add: inps_keys_def option_keys_def template_step_other split: sum.splits)

lemma read_template2inps_steps:
  "read_template2inps ops e tf ia w =
     (let w1 = w\<lparr>events := events w @ [Print (''read input option from template file: '' @ tf)]\<rparr>;
          t = check_template_auto_value e (read_template e tf)
      in case (case ia of None \<Rightarrow> cmd_line_parse e None | Some i \<Rightarrow> Inr i) of
           Inl err \<Rightarrow> (Inl err, w1)
         | Inr i \<Rightarrow>
             (case template_steps ops t option_keys i of
                Inl err \<Rightarrow> (Inl err, w1)
              | Inr j \<Rightarrow> (Inr (j\<lparr>laloStep := make_laloStep (latStep j) (lonStep j)\<rparr>), w1)))"
  unfolding read_template2inps_def Let_def template_loop_filter template_steps_inps_keys
  by (simp add: bind_def emit_def lift_def ret_def split: option.splits sum.splits)

lemma template_steps_option_keys:
  "template_steps ops t option_keys i = Inr j \<longleftrightarrow>
     (\<exists>j1 j2 j3 j4. template_step ops t ''SNWE'' i = Inr j1
        \<and> template_step ops t ''latStep'' j1 = Inr j2
        \<and> template_step ops t ''lonStep'' j2 = Inr j3
        \<and> template_step ops t ''interpMethod'' j3 = Inr j4
        \<and> template_step ops t ''fillValue'' j4 = Inr j)"
  by (auto simp add: option_keys_def split: sum.splits)


lemma step_SNWE:
  assumes "template_step ops t ''SNWE'' i = Inr j"
  shows "latStep j = latStep i \<and> lonStep j = lonStep i \<and> interpMethod j = interpMethod i
       \<and> fillValue j = fillValue i
       \<and> (\<forall>v. t (prefix @ ''SNWE'') = Some v \<and> truthy_tval v \<longrightarrow>
            (\<exists>parts xs. split_tval v = Inr parts \<and> map_err (float_of_str ops) parts = Inr xs
               \<and> SNWE j = Some xs))"
  using assms
  by (auto simp add: template_step_def assign_option_def
        split: option.splits if_splits sum.splits)

lemma step_latStep:
  assumes "template_step ops t ''latStep'' i = Inr j"
  shows "SNWE j = SNWE i \<and> lonStep j = lonStep i \<and> interpMethod j = interpMethod i
       \<and> fillValue j = fillValue i
       \<and> (\<forall>v. t (prefix @ ''latStep'') = Some v \<and> truthy_tval v \<longrightarrow>
            (\<exists>x. float_of_tval ops v = Inr x \<and> latStep j = Some x))"
  using assms
  by (auto simp add: template_step_def assign_option_def
        split: option.splits if_splits sum.splits)

lemma step_lonStep:
  assumes "template_step ops t ''lonStep'' i = Inr j"
  shows "SNWE j = SNWE i \<and> latStep j = latStep i \<and> interpMethod j = interpMethod i
       \<and> fillValue j = fillValue i
       \<and> (\<forall>v. t (prefix @ ''lonStep'') = Some v \<and> truthy_tval v \<longrightarrow>
            (\<exists>x. float_of_tval ops v = Inr x \<and> lonStep j = Some x))"
  using assms
  by (auto simp add: template_step_def assign_option_def
        split: option.splits if_splits sum.splits)

lemma step_interpMethod:
  assumes "template_step ops t ''interpMethod'' i = Inr j"
  shows "SNWE j = SNWE i \<and> latStep j = latStep i \<and> lonStep j = lonStep i
       \<and> fillValue j = fillValue i
       \<and> (\<forall>v. t (prefix @ ''interpMethod'') = Some v \<and> truthy_tval v \<longrightarrow> interpMethod j = v)"
  using assms
  by (auto simp add: template_step_def assign_option_def
        split: option.splits if_splits sum.splits)

lemma step_fillValue:
  assumes "template_step ops t ''fillValue'' i = Inr j"
  shows "SNWE j = SNWE i \<and> latStep j = latStep i \<and> lonStep j = lonStep i
       \<and> interpMethod j = interpMethod i
       \<and> (\<forall>v. t (prefix @ ''fillValue'') = Some v \<and> truthy_tval v \<longrightarrow>
            (\<exists>low. lower_tval v = Inr low
               \<and> (if str_contains low ''nan'' then fillValue j = nan ops
                   else (\<exists>x. float_of_tval ops v = Inr x \<and> fillValue j = x))))"
  using assms
  by (auto simp add: template_step_def assign_option_def
        split: option.splits if_splits sum.splits)

text \<open>The options of a record that returns from the template, key by key.\<close>

lemma template_steps_options:
  assumes "template_steps ops t option_keys i = Inr j"
  shows "(\<forall>v. t (prefix @ ''SNWE'') = Some v \<and> truthy_tval v \<longrightarrow>
            (\<exists>parts xs. split_tval v = Inr parts \<and> map_err (float_of_str ops) parts = Inr xs
               \<and> SNWE j = Some xs))"
    and "(\<forall>v. t (prefix @ ''latStep'') = Some v \<and> truthy_tval v \<longrightarrow>
            (\<exists>x. float_of_tval ops v = Inr x \<and> latStep j = Some x))"
    and "(\<forall>v. t (prefix @ ''lonStep'') = Some v \<and> truthy_tval v \<longrightarrow>
            (\<exists>x. float_of_tval ops v = Inr x \<and> lonStep j = Some x))"
    and "(\<forall>v. t (prefix @ ''interpMethod'') = Some v \<and> truthy_tval v \<longrightarrow> interpMethod j = v)"
    and "(\<forall>v. t (prefix @ ''fillValue'') = Some v \<and> truthy_tval v \<longrightarrow>
            (\<exists>low. lower_tval v = Inr low
               \<and> (if str_contains low ''nan'' then fillValue j = nan ops
                   else (\<exists>x. float_of_tval ops v = Inr x \<and> fillValue j = x))))"
proof -
  from assms obtain j1 j2 j3 j4 where
    s1: "template_step ops t ''SNWE'' i = Inr j1"
    and s2: "template_step ops t ''latStep'' j1 = Inr j2"
    and s3: "template_step ops t ''lonStep'' j2 = Inr j3"
    and s4: "template_step ops t ''interpMethod'' j3 = Inr j4"
    and s5: "template_step ops t ''fillValue'' j4 = Inr j"
    unfolding template_steps_option_keys by blast
  note f1 = step_SNWE [OF s1] and f2 = step_latStep [OF s2] and f3 = step_lonStep [OF s3]
    and f4 = step_interpMethod [OF s4] and f5 = step_fillValue [OF s5]
  show "(\<forall>v. t (prefix @ ''SNWE'') = Some v \<and> truthy_tval v \<longrightarrow>
            (\<exists>parts xs. split_tval v = Inr parts \<and> map_err (float_of_str ops) parts = Inr xs
               \<and> SNWE j = Some xs))"
    using f1 f2 f3 f4 f5 by simp
  show "(\<forall>v. t (prefix @ ''latStep'') = Some v \<and> truthy_tval v \<longrightarrow>
            (\<exists>x. float_of_tval ops v = Inr x \<and> latStep j = Some x))"
    using f2 f3 f4 f5 by simp
  show "(\<forall>v. t (prefix @ ''lonStep'') = Some v \<and> truthy_tval v \<longrightarrow>
            (\<exists>x. float_of_tval ops v = Inr x \<and> lonStep j = Some x))"
    using f3 f4 f5 by simp
  show "(\<forall>v. t (prefix @ ''interpMethod'') = Some v \<and> truthy_tval v \<longrightarrow> interpMethod j = v)"
    using f4 f5 by simp
  show "(\<forall>v. t (prefix @ ''fillValue'') = Some v \<and> truthy_tval v \<longrightarrow>
            (\<exists>low. lower_tval v = Inr low
               \<and> (if str_contains low ''nan'' then fillValue j = nan ops
                   else (\<exists>x. float_of_tval ops v = Inr x \<and> fillValue j = x))))"
    using f5 by simp
qed



lemma x_read_template:
  "x_read x_p x_template =
     (Inr (x_p\<lparr>SNWE := Some [Some (- 1 / 2), Some (1 / 2), Some 10, Some 11],
               latStep := Some (Some (1 / 4)), lonStep := Some (Some (1 / 2)),
               interpMethod := TStr ''bilinear'', fillValue := None,
               laloStep := Some [Some (1 / 4), Some (1 / 2)]\<rparr>), x_read_world)"
  by (simp add: x_read_def x_read_world_def x_template_def template_eval prog_eval x_eval)


section \<open>The keys of the template\<close>

lemma template_steps_cong:
  "\<forall>k \<in> set keys. t' (prefix @ k) = t (prefix @ k)
     \<Longrightarrow> template_steps ops t' keys i = template_steps ops t keys i"
  by (induction keys arbitrary: i) (auto simp add: template_step_def split: sum.splits)

lemma cmd_line_parse_template:
  "cmd_line_parse (e\<lparr>read_template := rt', check_template_auto_value := c'\<rparr>) a = cmd_line_parse e a"
  by (simp add: cmd_line_parse_def Let_def split: sum.splits)

lemma read_template2inps_Some_Inr:
  assumes "read_template2inps ops e tf (Some i) w = (Inr i', w')"
  shows "\<exists>j. template_steps ops (check_template_auto_value e (read_template e tf)) option_keys i = Inr j
           \<and> i' = j\<lparr>laloStep := make_laloStep (latStep j) (lonStep j)\<rparr>"
  using assms unfolding read_template2inps_steps
  by (auto simp add: Let_def split: sum.splits)

text \<open>
  The claim C5 counts \<^verbatim>\<open>pysar.geocode\<close> among the keys \<open>read_template2inps\<close> recognizes.
  The loop looks up \<^verbatim>\<open>'pysar.geocode.' + key\<close> only: a template that sets
  \<^verbatim>\<open>pysar.geocode\<close> to a truthy value gives back the options it was given, as the empty
  template does.
\<close>

theorem pysar_geocode_key_ignored:
  "x_read x_p [''pysar.geocode'' \<mapsto> TBool True] = (Inr x_p, x_read_world)
   \<and> x_read x_p Map.empty = (Inr x_p, x_read_world)"
  by (simp add: x_read_def x_read_world_def template_eval prog_eval x_eval)

text \<open>
  Claim C5, amended. \<open>read_template2inps\<close> reads the template at the five keys
  \<^verbatim>\<open>pysar.geocode.SNWE\<close>, \<^verbatim>\<open>pysar.geocode.latStep\<close>, \<^verbatim>\<open>pysar.geocode.lonStep\<close>,
  \<^verbatim>\<open>pysar.geocode.interpMethod\<close> and \<^verbatim>\<open>pysar.geocode.fillValue\<close> and at no other: two
  templates that agree on these five give the same outcome, whatever else they hold
  (\<^verbatim>\<open>pysar.geocode\<close> included). When it returns, each of the five keys that the template
  holds with a truthy value has set its option of the returned record to what the loop
  body computes from that value.
\<close>

theorem read_template2inps_keys:
  "((\<forall>k \<in> set option_keys.
        c' (rt' tf) (prefix @ k) = check_template_auto_value e (read_template e tf) (prefix @ k))
      \<longrightarrow> read_template2inps ops (e\<lparr>read_template := rt', check_template_auto_value := c'\<rparr>) tf ia w
            = read_template2inps ops e tf ia w)
   \<and> (read_template2inps ops e tf (Some i) w = (Inr i', w') \<longrightarrow>
        (\<forall>k \<in> set option_keys. \<forall>v.
           check_template_auto_value e (read_template e tf) (prefix @ k) = Some v \<and> truthy_tval v
             \<longrightarrow> (\<exists>j. assign_option ops k v i = Inr j \<and> get_option k i' = get_option k j)))"
proof (intro conjI impI)
  assume "\<forall>k \<in> set option_keys.
        c' (rt' tf) (prefix @ k) = check_template_auto_value e (read_template e tf) (prefix @ k)"
  then have eq: "template_steps ops (c' (rt' tf)) option_keys j
           = template_steps ops (check_template_auto_value e (read_template e tf)) option_keys j" for j
    by (rule template_steps_cong)
  show "read_template2inps ops (e\<lparr>read_template := rt', check_template_auto_value := c'\<rparr>) tf ia w
            = read_template2inps ops e tf ia w"
    by (cases ia)
       (simp_all add: read_template2inps_steps cmd_line_parse_template eq Let_def
          cong: sum.case_cong)
next
  assume run: "read_template2inps ops e tf (Some i) w = (Inr i', w')"
  let ?t = "check_template_auto_value e (read_template e tf)"
  from read_template2inps_Some_Inr [OF run] obtain j where
    st: "template_steps ops ?t option_keys i = Inr j"
    and i': "i' = j\<lparr>laloStep := make_laloStep (latStep j) (lonStep j)\<rparr>"
    by blast
  note o = template_steps_options [OF st]
  show "\<forall>k \<in> set option_keys. \<forall>v. ?t (prefix @ k) = Some v \<and> truthy_tval v
             \<longrightarrow> (\<exists>j. assign_option ops k v i = Inr j \<and> get_option k i' = get_option k j)"
  proof (intro ballI allI impI)
    fix k v
    assume k: "k \<in> set option_keys" and v: "?t (prefix @ k) = Some v \<and> truthy_tval v"
    from k have "k = ''SNWE'' \<or> k = ''latStep'' \<or> k = ''lonStep''
        \<or> k = ''interpMethod'' \<or> k = ''fillValue''"
      by (simp add: option_keys_def)
    then consider "k = ''SNWE''" | "k = ''latStep''" | "k = ''lonStep''"
      | "k = ''interpMethod''" | "k = ''fillValue''"
      by blast
    then show "\<exists>j. assign_option ops k v i = Inr j \<and> get_option k i' = get_option k j"
    proof cases
      case 1
      with o(1) v show ?thesis
        by (fastforce simp add: assign_option_def get_option_def i')
    next
      case 2
      with o(2) v show ?thesis
        by (fastforce simp add: assign_option_def get_option_def i')
    next
      case 3
      with o(3) v show ?thesis
        by (fastforce simp add: assign_option_def get_option_def i')
    next
      case 4
      with o(4) v show ?thesis
        by (fastforce simp add: assign_option_def get_option_def i')
    next
      case 5
      with o(5) v show ?thesis
        by (fastforce simp add: assign_option_def get_option_def i' split: if_splits)
    qed
  qed
qed

theorem read_template2inps_keys_witness:
  "read_template2inps x_ops
       ((x_env x_p Map.empty Map.empty (None, None))
          \<lparr>read_template := (\<lambda>f. [''pysar.geocode'' \<mapsto> TBool True]),
           check_template_auto_value := (\<lambda>d. d)\<rparr>)
       ''pysarApp_template.txt'' (Some x_p) world0
     = x_read x_p Map.empty
   \<and> (\<exists>i' w' j. x_read x_p x_template = (Inr i', w')
         \<and> assign_option x_ops ''latStep'' (TStr ''0.25'') x_p = Inr j
         \<and> get_option ''latStep'' i' = get_option ''latStep'' j
         \<and> get_option ''latStep'' i' = VStep (Some (Some (1 / 4))))"
proof -
  let ?e = "x_env x_p Map.empty Map.empty (None, None)
              :: (xfloat, nat list, unit, xfloat resample_args) env"
  let ?e2 = "x_env x_p x_template Map.empty (None, None)
              :: (xfloat, nat list, unit, xfloat resample_args) env"
  let ?g = "\<lambda>f :: string. [''pysar.geocode'' \<mapsto> TBool True]"
  let ?i = "x_p\<lparr>SNWE := Some [Some (- 1 / 2), Some (1 / 2), Some 10, Some 11],
               latStep := Some (Some (1 / 4)), lonStep := Some (Some (1 / 2)),
               interpMethod := TStr ''bilinear'', fillValue := None,
               laloStep := Some [Some (1 / 4), Some (1 / 2)]\<rparr>"
  have a: "read_template2inps x_ops (?e\<lparr>read_template := ?g, check_template_auto_value := (\<lambda>d. d)\<rparr>)
             ''pysarApp_template.txt'' (Some x_p) world0 = x_read x_p Map.empty"
    using read_template2inps_keys [where e = ?e and rt' = ?g and c' = "\<lambda>d. d"
        and tf = "''pysarApp_template.txt''" and ops = x_ops and ia = "Some x_p" and w = world0,
        THEN conjunct1]
    by (simp add: x_read_def option_keys_def prefix_def x_env_def)
  have run: "read_template2inps x_ops ?e2 ''pysarApp_template.txt'' (Some x_p) world0
               = (Inr ?i, x_read_world)"
    using x_read_template by (simp add: x_read_def)
  have b: "\<exists>j. assign_option x_ops ''latStep'' (TStr ''0.25'') x_p = Inr j
             \<and> get_option ''latStep'' ?i = get_option ''latStep'' j"
    using read_template2inps_keys [where e = ?e2 and tf = "''pysarApp_template.txt''"
        and ops = x_ops and w = world0 and i = x_p and i' = ?i and w' = x_read_world,
        THEN conjunct2] run
    by (simp add: option_keys_def x_env_def x_template_def prefix_def)
  have c: "get_option ''latStep'' ?i = VStep (Some (Some (1 / 4)))"
    by (simp add: get_option_def)
  from a b c x_read_template show ?thesis
    by auto
qed

section \<open>Malformed values of the template\<close>

lemma assign_option_Inl:
  "assign_option ops k v i = Inl err \<longleftrightarrow> conversion_error ops k v = Some err"
  by (simp add: assign_option_def conversion_error_def split: sum.splits)

lemma rejects_conversion_error:
  "rejects ops k v \<longleftrightarrow> truthy_tval v \<and> conversion_error ops k v \<noteq> None"
  by (simp add: rejects_def conversion_error_def isl_def split: sum.splits)

lemma template_step_Inl:
  "template_step ops t k i = Inl err \<longleftrightarrow>
     (\<exists>v. t (prefix @ k) = Some v \<and> truthy_tval v \<and> conversion_error ops k v = Some err)"
  by (simp add: template_step_def assign_option_Inl split: option.splits)

lemma template_steps_Inl:
  "template_steps ops t keys i = Inl err \<Longrightarrow>
     \<exists>k v. k \<in> set keys \<and> t (prefix @ k) = Some v \<and> truthy_tval v
       \<and> conversion_error ops k v = Some err"
proof (induction keys arbitrary: i)
  case Nil
  then show ?case by simp
next
  case (Cons k keys)
  show ?case
  proof (cases "template_step ops t k i")
    case (Inl err')
    with Cons.prems have "template_step ops t k i = Inl err"
      by simp
    then obtain v where "t (prefix @ k) = Some v" "truthy_tval v"
      "conversion_error ops k v = Some err"
      unfolding template_step_Inl by (elim exE conjE)
    then show ?thesis
      by (intro exI [of _ k] exI [of _ v]) simp
  next
    case (Inr i1)
    with Cons.prems have "template_steps ops t keys i1 = Inl err"
      by simp
    from Cons.IH [OF this] obtain k' v where "k' \<in> set keys" "t (prefix @ k') = Some v"
      "truthy_tval v" "conversion_error ops k' v = Some err"
      by (elim exE conjE)
    then show ?thesis
      by (intro exI [of _ k'] exI [of _ v]) simp
  qed
qed

lemma template_steps_rejects:
  assumes "k \<in> set keys" and "t (prefix @ k) = Some v" and "rejects ops k v"
  shows "\<exists>err. template_steps ops t keys i = Inl err"
  using assms(1)
proof (induction keys arbitrary: i)
  case Nil
  then show ?case by simp
next
  case (Cons k' keys)
  show ?case
  proof (cases "template_step ops t k' i")
    case (Inl err)
    then show ?thesis by simp
  next
    case (Inr i1)
    have "k' \<noteq> k"
    proof
      assume same: "k' = k"
      from assms(3) obtain err where tr: "truthy_tval v"
        and ce: "conversion_error ops k v = Some err"
        unfolding rejects_conversion_error by (cases "conversion_error ops k v") simp_all
      from ce have "assign_option ops k v i = Inl err"
        by (simp add: assign_option_Inl)
      with tr assms(2) have "template_step ops t k i = Inl err"
        by (simp add: template_step_def)
      with Inr same show False
        by simp
    qed
    with Cons.prems have "k \<in> set keys"
      by simp
    from Cons.IH [OF this] Inr show ?thesis
      by simp
  qed
qed

lemma map_err_Inl: "map_err f xs = Inl err \<Longrightarrow> \<exists>x. f x = Inl err"
  by (induction xs) (auto split: sum.splits)

lemma conversion_error_kind:
  assumes only: "\<forall>s err'. float_of_str ops s = Inl err' \<longrightarrow> err' = ValueError"
    and c: "conversion_error ops k v = Some err" and tr: "truthy_tval v"
  shows "err = ValueError \<or> err = AttributeError"
proof (cases v)
  case (TStr s)
  with c only show ?thesis
    by (auto simp add: conversion_error_def split: if_splits sum.splits dest!: map_err_Inl)
next
  case (TBool b)
  with c show ?thesis
    by (auto simp add: conversion_error_def split: if_splits)
next
  case TNone
  with tr show ?thesis by simp
qed

lemma rejects_key: "rejects ops k v \<Longrightarrow> k \<in> set option_keys"
  by (auto simp add: rejects_def option_keys_def split: if_splits)

lemma template_step_skip:
  "(\<forall>v. t (prefix @ k) = Some v \<longrightarrow> \<not> truthy_tval v) \<Longrightarrow> template_step ops t k i = Inr i"
  by (simp add: template_step_def split: option.splits)

lemma template_steps_skip:
  assumes st: "template_steps ops t option_keys i = Inr j"
    and k: "k \<in> set option_keys"
    and no: "\<forall>v. t (prefix @ k) = Some v \<longrightarrow> \<not> truthy_tval v"
  shows "get_option k j = get_option k i"
proof -
  from st obtain j1 j2 j3 j4 where
    s1: "template_step ops t ''SNWE'' i = Inr j1"
    and s2: "template_step ops t ''latStep'' j1 = Inr j2"
    and s3: "template_step ops t ''lonStep'' j2 = Inr j3"
    and s4: "template_step ops t ''interpMethod'' j3 = Inr j4"
    and s5: "template_step ops t ''fillValue'' j4 = Inr j"
    unfolding template_steps_option_keys by (elim exE conjE)
  note f1 = step_SNWE [OF s1] and f2 = step_latStep [OF s2] and f3 = step_lonStep [OF s3]
    and f4 = step_interpMethod [OF s4] and f5 = step_fillValue [OF s5]
  note sk = template_step_skip [where t = t and k = k and ops = ops, OF no]
  from k have "k = ''SNWE'' \<or> k = ''latStep'' \<or> k = ''lonStep''
      \<or> k = ''interpMethod'' \<or> k = ''fillValue''"
    by (simp add: option_keys_def)
  then consider "k = ''SNWE''" | "k = ''latStep''" | "k = ''lonStep''"
    | "k = ''interpMethod''" | "k = ''fillValue''"
    by blast
  then show ?thesis
  proof cases
    case 1
    have "j1 = i" using s1 sk [of i] 1 by simp
    with 1 f2 f3 f4 f5 show ?thesis by (simp add: get_option_def)
  next
    case 2
    have "j2 = j1" using s2 sk [of j1] 2 by simp
    with 2 f1 f3 f4 f5 show ?thesis by (simp add: get_option_def)
  next
    case 3
    have "j3 = j2" using s3 sk [of j2] 3 by simp
    with 3 f1 f2 f4 f5 show ?thesis by (simp add: get_option_def)
  next
    case 4
    have "j4 = j3" using s4 sk [of j3] 4 by simp
    with 4 f1 f2 f3 f5 show ?thesis by (simp add: get_option_def)
  next
    case 5
    have "j = j4" using s5 sk [of j4] 5 by simp
    with 5 f1 f2 f3 f4 show ?thesis by (simp add: get_option_def)
  qed
qed

lemma read_template2inps_on:
  assumes "ia = Some i \<or> (ia = None \<and> cmd_line_parse e None = Inr i)"
  shows "read_template2inps ops e tf ia w =
     (case template_steps ops (check_template_auto_value e (read_template e tf)) option_keys i of
        Inl err \<Rightarrow> (Inl err, read_world tf w)
      | Inr j \<Rightarrow> (Inr (j\<lparr>laloStep := make_laloStep (latStep j) (lonStep j)\<rparr>), read_world tf w))"
  using assms
  by (auto simp add: read_template2inps_steps read_world_def Let_def split: sum.splits)

text \<open>
  The claim C6 has every value that is not of the expected numeric form raise. The
  string \<^verbatim>\<open>banana\<close> is no number, \<^verbatim>\<open>float\<close> rejects it, and as a fill value it raises
  nothing: its lower case contains \<^verbatim>\<open>nan\<close>, so the fill value 0 of the command line is
  replaced by NaN. The empty string is no number either, and as the value of
  \<^verbatim>\<open>latStep\<close> it raises nothing: it is falsy, and the options are returned as they were.
\<close>

theorem fillValue_banana_accepted:
  "float_of_str x_ops ''banana'' = Inl ValueError
   \<and> x_read (x_p\<lparr>fillValue := Some 0\<rparr>) [''pysar.geocode.fillValue'' \<mapsto> TStr ''banana'']
       = (Inr (x_p\<lparr>fillValue := None\<rparr>), x_read_world)
   \<and> float_of_str x_ops [] = Inl ValueError
   \<and> x_read x_p [''pysar.geocode.latStep'' \<mapsto> TStr []]
       = (Inr x_p, x_read_world)"
  by (simp add: x_read_def x_read_world_def template_eval prog_eval x_eval)

text \<open>
  Claim C6, amended. Let \<open>read_template2inps\<close> run on an options record (the one it is
  given, or the one \<open>cmd_line_parse\<close> returns). If the template holds, for \<^verbatim>\<open>SNWE\<close>,
  \<^verbatim>\<open>latStep\<close>, \<^verbatim>\<open>lonStep\<close> or \<^verbatim>\<open>fillValue\<close>, a truthy value that the conversion of the
  loop body refuses (for \<^verbatim>\<open>fillValue\<close>: a value without \<^verbatim>\<open>nan\<close> in its lower case that
  \<^verbatim>\<open>float\<close> rejects), then \<open>read_template2inps\<close> raises the exception of a refused
  conversion, right after its first line is printed: no options record is returned, no
  default is put in the place of the value, and the exception is \<^verbatim>\<open>ValueError\<close> or
  \<^verbatim>\<open>AttributeError\<close>, not \<^verbatim>\<open>SystemExit\<close>, as long as \<^verbatim>\<open>float\<close> raises nothing but
  \<^verbatim>\<open>ValueError\<close> on a string. When it returns, a key that the template lacks or holds
  with a falsy value has left its option as it was.
\<close>

theorem read_template2inps_raises:
  assumes ia: "ia = Some i \<or> (ia = None \<and> cmd_line_parse e None = Inr i)"
  shows "(check_template_auto_value e (read_template e tf) (prefix @ key) = Some v \<and> rejects ops key v
            \<longrightarrow> (\<exists>k v' err.
                   k \<in> set option_keys
                 \<and> check_template_auto_value e (read_template e tf) (prefix @ k) = Some v'
                 \<and> truthy_tval v' \<and> conversion_error ops k v' = Some err
                 \<and> read_template2inps ops e tf ia w = (Inl err, read_world tf w)
                 \<and> ((\<forall>s err'. float_of_str ops s = Inl err' \<longrightarrow> err' = ValueError)
                      \<longrightarrow> err = ValueError \<or> err = AttributeError)))
       \<and> (\<forall>i' w'. read_template2inps ops e tf ia w = (Inr i', w') \<longrightarrow>
            (\<forall>k \<in> set option_keys.
               (\<forall>v'. check_template_auto_value e (read_template e tf) (prefix @ k) = Some v'
                        \<longrightarrow> \<not> truthy_tval v')
               \<longrightarrow> get_option k i' = get_option k i))"
proof (intro conjI impI allI ballI)
  let ?t = "check_template_auto_value e (read_template e tf)"
  assume "?t (prefix @ key) = Some v \<and> rejects ops key v"
  then have t: "?t (prefix @ key) = Some v" and rj: "rejects ops key v"
    by simp_all
  from template_steps_rejects [where t = ?t and k = key and i = i, OF rejects_key [OF rj] t rj]
  obtain err where st: "template_steps ops ?t option_keys i = Inl err"
    by (elim exE)
  from template_steps_Inl [OF st] obtain k v' where k: "k \<in> set option_keys"
    and v': "?t (prefix @ k) = Some v'" and tr: "truthy_tval v'"
    and ce: "conversion_error ops k v' = Some err"
    by (elim exE conjE)
  have run: "read_template2inps ops e tf ia w = (Inl err, read_world tf w)"
    by (simp add: read_template2inps_on [OF ia] st)
  have kind: "(\<forall>s err'. float_of_str ops s = Inl err' \<longrightarrow> err' = ValueError)
                \<longrightarrow> err = ValueError \<or> err = AttributeError"
    using conversion_error_kind [OF _ ce tr] by (intro impI)
  from k v' tr ce run kind
  show "\<exists>k v' err.
           k \<in> set option_keys \<and> ?t (prefix @ k) = Some v'
         \<and> truthy_tval v' \<and> conversion_error ops k v' = Some err
         \<and> read_template2inps ops e tf ia w = (Inl err, read_world tf w)
         \<and> ((\<forall>s err'. float_of_str ops s = Inl err' \<longrightarrow> err' = ValueError)
              \<longrightarrow> err = ValueError \<or> err = AttributeError)"
    by (intro exI [of _ k] exI [of _ v'] exI [of _ err] conjI)
next
  fix i' w' k
  let ?t = "check_template_auto_value e (read_template e tf)"
  assume run: "read_template2inps ops e tf ia w = (Inr i', w')"
    and k: "k \<in> set option_keys"
    and no: "\<forall>v'. ?t (prefix @ k) = Some v' \<longrightarrow> \<not> truthy_tval v'"
  from run obtain j where st: "template_steps ops ?t option_keys i = Inr j"
    and i': "i' = j\<lparr>laloStep := make_laloStep (latStep j) (lonStep j)\<rparr>"
    unfolding read_template2inps_on [OF ia]
    by (cases "template_steps ops ?t option_keys i") simp_all
  have "get_option k i' = get_option k j"
    by (simp add: i' get_option_def)
  with template_steps_skip [where t = ?t and k = k, OF st k no] show "get_option k i' = get_option k i"
    by simp
qed

lemma x_float_of_str_errors:
  "\<forall>s err'. float_of_str x_ops s = Inl err' \<longrightarrow> err' = ValueError"
  by (simp add: x_ops_def x_float_of_str_def split: list.splits option.splits if_splits)

theorem read_template2inps_raises_witness:
  "rejects x_ops ''latStep'' (TStr ''abc'')
   \<and> x_read x_p [''pysar.geocode.latStep'' \<mapsto> TStr ''abc''] = (Inl ValueError, x_read_world)
   \<and> (\<exists>i' w'. x_read x_p [''pysar.geocode.latStep'' \<mapsto> TBool False,
                             ''pysar.geocode.lonStep'' \<mapsto> TStr ''0.5''] = (Inr i', w')
         \<and> get_option ''latStep'' i' = get_option ''latStep'' x_p
         \<and> get_option ''SNWE'' i' = get_option ''SNWE'' x_p)"
proof -
  let ?t1 = "[''pysar.geocode.latStep'' \<mapsto> TStr ''abc'']"
  let ?t3 = "[''pysar.geocode.latStep'' \<mapsto> TBool False, ''pysar.geocode.lonStep'' \<mapsto> TStr ''0.5'']"
  let ?e1 = "x_env x_p ?t1 Map.empty (None, None)
              :: (xfloat, nat list, unit, xfloat resample_args) env"
  let ?e3 = "x_env x_p ?t3 Map.empty (None, None)
              :: (xfloat, nat list, unit, xfloat resample_args) env"
  let ?tf = "''pysarApp_template.txt''"
  let ?i3 = "x_p\<lparr>lonStep := Some (Some (1 / 2))\<rparr>"
  have ia1: "Some x_p = Some x_p \<or> (Some x_p = None \<and> cmd_line_parse ?e1 None = Inr x_p)"
    by simp
  have ia3: "Some x_p = Some x_p \<or> (Some x_p = None \<and> cmd_line_parse ?e3 None = Inr x_p)"
    by simp
  have r1: "rejects x_ops ''latStep'' (TStr ''abc'')"
    by (simp add: rejects_def x_eval)
  have t1: "check_template_auto_value ?e1 (read_template ?e1 ?tf) (prefix @ ''latStep'') = Some (TStr ''abc'')"
    by (simp add: x_env_def prefix_def)
  from read_template2inps_raises [OF ia1, where tf = ?tf and ops = x_ops
      and key = "''latStep''" and v = "TStr ''abc''" and w = world0, THEN conjunct1, rule_format,
      OF conjI [OF t1 r1]]
  obtain err where run1: "read_template2inps x_ops ?e1 ?tf (Some x_p) world0 = (Inl err, read_world ?tf world0)"
    and kind: "(\<forall>s err'. float_of_str x_ops s = Inl err' \<longrightarrow> err' = ValueError)
                 \<longrightarrow> err = ValueError \<or> err = AttributeError"
    by (elim exE conjE)
  have ev1: "read_template2inps x_ops ?e1 ?tf (Some x_p) world0 = (Inl ValueError, x_read_world)"
    by (simp add: x_read_world_def template_eval prog_eval x_eval)
  have run3: "read_template2inps x_ops ?e3 ?tf (Some x_p) world0 = (Inr ?i3, x_read_world)"
    by (simp add: x_read_world_def template_eval prog_eval x_eval)
  have k1: "''latStep'' \<in> set option_keys" and k2: "''SNWE'' \<in> set option_keys"
    by (simp_all add: option_keys_def)
  note skip = read_template2inps_raises [OF ia3, where tf = ?tf and ops = x_ops and w = world0,
      THEN conjunct2, rule_format, OF run3]
  have c1: "get_option ''latStep'' ?i3 = get_option ''latStep'' x_p"
    by (rule skip [OF k1]) (simp add: x_env_def prefix_def)
  have c2: "get_option ''SNWE'' ?i3 = get_option ''SNWE'' x_p"
    by (rule skip [OF k2]) (simp add: x_env_def prefix_def)
  from run1 kind ev1 r1 run3 c1 c2 show ?thesis
    by (simp add: x_read_def)
qed

end
